theory Spec2Isabelle
  imports Complex_Main "HOL-Library.List_Lexorder" "HOL-Library.Char_ord" "HOL-Library.Multiset"
begin

section \<open>Conventions\<close>

text \<open>
  JavaScript strings are modelled as \<^typ>\<open>string\<close> holding their UTF-8 bytes; the order on
  strings is the lexicographic order of the bytes, which for the ISO timestamps the program
  compares is the order JavaScript's \<open><\<close> and \<open>></\<close> give. Ids and counters are
  \<^typ>\<open>int\<close>; the price stored in an ad, which the handlers only copy, is a
  \<^typ>\<open>rat\<close>, and the numbers the price formatters compute with are IEEE 754 doubles
  (section Numbers). A React state setter called with an updater
  function is the application of that function to the state component; an asynchronous
  function is split at each \<open>await\<close> into the part that runs before it and the part that
  runs when the awaited promise settles.
\<close>

section \<open>Array helpers\<close>

text \<open>\<open>Array.prototype.findIndex\<close>: the first index whose element satisfies the predicate, else -1.\<close>

fun findIndex :: "('a \<Rightarrow> bool) \<Rightarrow> 'a list \<Rightarrow> int" where
  "findIndex P [] = -1"
| "findIndex P (x # xs) =
     (if P x then 0 else (let r = findIndex P xs in if r < 0 then -1 else r + 1))"

text \<open>
  The idiom \<open>if (idx > 0) { const [item] = xs.splice(idx, 1); xs.unshift(item); }\<close>.
  An index past the end would splice nothing; the callers pass the result of
  \<open>findIndex\<close>, which is always inside the array.
\<close>

definition splice_unshift :: "int \<Rightarrow> 'a list \<Rightarrow> 'a list" where
  "splice_unshift idx xs =
     (if idx > 0 then
        (case drop (nat idx) xs of
           [] \<Rightarrow> xs
         | item # rest \<Rightarrow> item # (take (nat idx) xs @ rest))
      else xs)"

text \<open>
  \<open>Array.prototype.sort(cmp)\<close> is library code. It is modelled as an insertion sort that
  takes the elements from left to right and puts each element \<open>x\<close> in front of the first
  element \<open>y\<close> of the sorted prefix with \<open>cmp(x, y) < 0\<close>.
\<close>

fun insert_by :: "('a \<Rightarrow> 'a \<Rightarrow> int) \<Rightarrow> 'a \<Rightarrow> 'a list \<Rightarrow> 'a list" where
  "insert_by cmp x [] = [x]"
| "insert_by cmp x (y # ys) = (if cmp x y < 0 then x # y # ys else y # insert_by cmp x ys)"

definition js_sort :: "('a \<Rightarrow> 'a \<Rightarrow> int) \<Rightarrow> 'a list \<Rightarrow> 'a list" where
  "js_sort cmp xs = foldl (\<lambda>acc x. insert_by cmp x acc) [] xs"

text \<open>\<open>a ?? b\<close> on an optional value.\<close>

definition nullish :: "'a option \<Rightarrow> 'a \<Rightarrow> 'a" where
  "nullish v d = (case v of None \<Rightarrow> d | Some x \<Rightarrow> x)"

section \<open>Listings\<close>

text \<open>The type \<open>Ad\<close>; the field \<open>id\<close> is \<open>ad_id\<close> and \<open>type\<close> is \<open>adType\<close>.\<close>

record ad =
  ad_id :: int
  userId :: int
  adType :: int
  title :: string
  year :: int
  color :: string
  mileageKm :: int
  price :: rat
  gearbox :: int
  createdAt :: string
  viewCount :: int
  insuranceMonths :: "int option"
  chassisNumber :: "string option"
  contactPhone :: "string option"
  description :: "string option"

text \<open>
  The payload of an update event is an object with any subset of the fields; a field that is
  absent is \<open>None\<close>. \<open>{ ...x, ...p }\<close> takes every field present in \<open>p\<close> from \<open>p\<close> and the
  others from \<open>x\<close>.
\<close>

record ad_patch =
  p_id :: "int option"
  p_userId :: "int option"
  p_adType :: "int option"
  p_title :: "string option"
  p_year :: "int option"
  p_color :: "string option"
  p_mileageKm :: "int option"
  p_price :: "rat option"
  p_gearbox :: "int option"
  p_createdAt :: "string option"
  p_viewCount :: "int option"
  p_insuranceMonths :: "int option"
  p_chassisNumber :: "string option"
  p_contactPhone :: "string option"
  p_description :: "string option"

definition spread_opt :: "'a option \<Rightarrow> 'a option \<Rightarrow> 'a option" where
  "spread_opt old new = (case new of None \<Rightarrow> old | Some v \<Rightarrow> Some v)"

definition merge_ad :: "ad \<Rightarrow> ad_patch \<Rightarrow> ad" where
  "merge_ad x p =
     \<lparr> ad_id = nullish (p_id p) (ad_id x),
       userId = nullish (p_userId p) (userId x),
       adType = nullish (p_adType p) (adType x),
       title = nullish (p_title p) (title x),
       year = nullish (p_year p) (year x),
       color = nullish (p_color p) (color x),
       mileageKm = nullish (p_mileageKm p) (mileageKm x),
       price = nullish (p_price p) (price x),
       gearbox = nullish (p_gearbox p) (gearbox x),
       createdAt = nullish (p_createdAt p) (createdAt x),
       viewCount = nullish (p_viewCount p) (viewCount x),
       insuranceMonths = spread_opt (insuranceMonths x) (p_insuranceMonths p),
       chassisNumber = spread_opt (chassisNumber x) (p_chassisNumber p),
       contactPhone = spread_opt (contactPhone x) (p_contactPhone p),
       description = spread_opt (description x) (p_description p) \<rparr>"

section \<open>Public profile page: the ads collection\<close>

text \<open>
  The handlers of \<open>PublicUserPage\<close> that update \<open>allAds\<close>, each as the updater it passes to
  \<open>setAllAds\<close>, guarded as in the source by \<open>p.userId !== profileId\<close>.
\<close>

definition onAdCreated :: "int \<Rightarrow> ad \<Rightarrow> ad list \<Rightarrow> ad list" where
  "onAdCreated profileId p prev =
     (if userId p \<noteq> profileId then prev
      else if list_ex (\<lambda>x. ad_id x = ad_id p) prev then prev
      else p # prev)"

definition onAdUpdated :: "int \<Rightarrow> ad_patch \<Rightarrow> ad list \<Rightarrow> ad list" where
  "onAdUpdated profileId p prev =
     (if p_userId p \<noteq> Some profileId then prev
      else map (\<lambda>x. if Some (ad_id x) = p_id p then merge_ad x p else x) prev)"

text \<open>The delete payload carries \<open>userId\<close> and \<open>adId\<close>.\<close>

definition onAdDeleted :: "int \<Rightarrow> int \<Rightarrow> int \<Rightarrow> ad list \<Rightarrow> ad list" where
  "onAdDeleted profileId p_user p_adId prev =
     (if p_user \<noteq> profileId then prev
      else filter (\<lambda>x. ad_id x \<noteq> p_adId) prev)"

text \<open>The counter payload is \<open>{ adId, viewCount }\<close>; the handler has no guard.\<close>

definition onAdView :: "int \<Rightarrow> int \<Rightarrow> ad list \<Rightarrow> ad list" where
  "onAdView p_adId vc prev =
     map (\<lambda>x. if ad_id x = p_adId then x\<lparr>viewCount := vc\<rparr> else x) prev"

section \<open>Dashboard: the ads collection\<close>

text \<open>
  The handlers the dashboard registers for \<open>CarAdCreatedForUser\<close>, \<open>MyCarAdUpdated\<close>,
  \<open>MyCarAdDeleted\<close> and \<open>AdViewUpdated\<close>, as the updaters they pass to \<open>setAds\<close>.
\<close>

definition onCarAdCreatedForUser :: "ad \<Rightarrow> ad list \<Rightarrow> ad list" where
  "onCarAdCreatedForUser a prev = a # prev"

definition onMyCarAdUpdated :: "ad_patch \<Rightarrow> ad list \<Rightarrow> ad list" where
  "onMyCarAdUpdated payload prev =
     map (\<lambda>x. if Some (ad_id x) = p_id payload then merge_ad x payload else x) prev"

definition onMyCarAdDeleted :: "int \<Rightarrow> ad list \<Rightarrow> ad list" where
  "onMyCarAdDeleted p_adId prev = filter (\<lambda>x. ad_id x \<noteq> p_adId) prev"

definition onAdViewUpdated :: "int \<Rightarrow> int \<Rightarrow> ad list \<Rightarrow> ad list" where
  "onAdViewUpdated p_adId vc prev =
     (let updated = map (\<lambda>x. if ad_id x = p_adId then x\<lparr>viewCount := vc\<rparr> else x) prev;
          idx = findIndex (\<lambda>x. ad_id x = p_adId) updated
      in splice_unshift idx updated)"

text \<open>A sequence of counter events for one ad, delivered in the order of the list.\<close>

definition onAdView_seq :: "int \<Rightarrow> int list \<Rightarrow> ad list \<Rightarrow> ad list" where
  "onAdView_seq p_adId vs prev = foldl (\<lambda>acc v. onAdView p_adId v acc) prev vs"

definition onAdViewUpdated_seq :: "int \<Rightarrow> int list \<Rightarrow> ad list \<Rightarrow> ad list" where
  "onAdViewUpdated_seq p_adId vs prev = foldl (\<lambda>acc v. onAdViewUpdated p_adId v acc) prev vs"

text \<open>The view counts stored for one id, in list order.\<close>

definition counts_of :: "int \<Rightarrow> ad list \<Rightarrow> int list" where
  "counts_of i xs = map viewCount (filter (\<lambda>x. ad_id x = i) xs)"

text \<open>A sample listing with the given id, owner, creation time and view count.\<close>

definition mk_ad :: "int \<Rightarrow> int \<Rightarrow> string \<Rightarrow> int \<Rightarrow> ad" where
  "mk_ad i u c v =
     \<lparr> ad_id = i, userId = u, adType = 1, title = ''t'', year = 1400, color = ''c'',
       mileageKm = 0, price = 80, gearbox = 1, createdAt = c, viewCount = v,
       insuranceMonths = None, chassisNumber = None, contactPhone = None,
       description = None \<rparr>"

section \<open>Biography entries of the public profile page\<close>

text \<open>The type \<open>BioItem\<close> of the profile page and the payload of its update event.\<close>

record bio_item =
  bio_id :: int
  bio_userId :: int
  isAdvanced :: bool
  bio_title :: string
  bio_description :: string
  contactInfo :: "string option"
  bio_createdAt :: string
  bio_updatedAt :: string

record bio_patch =
  b_id :: "int option"
  b_userId :: "int option"
  b_isAdvanced :: "bool option"
  b_title :: "string option"
  b_description :: "string option"
  b_contactInfo :: "string option"
  b_createdAt :: "string option"
  b_updatedAt :: "string option"

definition merge_bio :: "bio_item \<Rightarrow> bio_patch \<Rightarrow> bio_item" where
  "merge_bio x p =
     \<lparr> bio_id = nullish (b_id p) (bio_id x),
       bio_userId = nullish (b_userId p) (bio_userId x),
       isAdvanced = nullish (b_isAdvanced p) (isAdvanced x),
       bio_title = nullish (b_title p) (bio_title x),
       bio_description = nullish (b_description p) (bio_description x),
       contactInfo = spread_opt (contactInfo x) (b_contactInfo p),
       bio_createdAt = nullish (b_createdAt p) (bio_createdAt x),
       bio_updatedAt = nullish (b_updatedAt p) (bio_updatedAt x) \<rparr>"

text \<open>The comparator the page gives to \<open>sort\<close> for biography entries: advanced first, then newest first.\<close>

definition bio_cmp :: "bio_item \<Rightarrow> bio_item \<Rightarrow> int" where
  "bio_cmp a b =
     (if isAdvanced a \<noteq> isAdvanced b then (if isAdvanced a then -1 else 1)
      else if bio_createdAt a < bio_createdAt b then 1 else -1)"

definition onBioAdded :: "int \<Rightarrow> bio_item \<Rightarrow> bio_item list \<Rightarrow> bio_item list" where
  "onBioAdded profileId p prev =
     (if bio_userId p \<noteq> profileId then prev else js_sort bio_cmp (p # prev))"

definition onBioUpdated :: "int \<Rightarrow> bio_patch \<Rightarrow> bio_item list \<Rightarrow> bio_item list" where
  "onBioUpdated profileId p prev =
     (if b_userId p \<noteq> Some profileId then prev
      else js_sort bio_cmp (map (\<lambda>x. if Some (bio_id x) = b_id p then merge_bio x p else x) prev))"

text \<open>The delete payload carries \<open>userId\<close> and \<open>id\<close>.\<close>

definition onBioDeleted :: "int \<Rightarrow> int \<Rightarrow> int \<Rightarrow> bio_item list \<Rightarrow> bio_item list" where
  "onBioDeleted profileId p_user p_bioId prev =
     (if p_user \<noteq> profileId then prev else filter (\<lambda>x. bio_id x \<noteq> p_bioId) prev)"

section \<open>Public profile page: state, loadAll and event delivery\<close>

datatype role = User | Admin | SuperAdmin

record public_user =
  pu_id :: int
  firstName :: string
  lastName :: string
  username :: string
  pu_role :: role
  pu_createdAt :: string

record profile_page =
  user :: "public_user option"
  bio :: "bio_item list"
  allAds :: "ad list"
  err :: "string option"
  loading :: bool

text \<open>The state \<open>useState\<close> gives the page when it mounts.\<close>

definition profile_init :: profile_page where
  "profile_init = \<lparr> user = None, bio = [], allAds = [], err = None, loading = True \<rparr>"

text \<open>The fixed message of \<open>loadAll\<close>'s \<open>catch\<close>, as UTF-8 bytes.\<close>

definition msg_loadAll_failed :: string where
  "msg_loadAll_failed =
     [CHR 0xD8, CHR 0xAE, CHR 0xD8, CHR 0xB7, CHR 0xD8, CHR 0xA7, CHR 0x20, CHR 0xD8,
      CHR 0xAF, CHR 0xD8, CHR 0xB1, CHR 0x20, CHR 0xD8, CHR 0xAF, CHR 0xD8, CHR 0xB1,
      CHR 0xDB, CHR 0x8C, CHR 0xD8, CHR 0xA7, CHR 0xD9, CHR 0x81, CHR 0xD8, CHR 0xAA,
      CHR 0x20, CHR 0xD8, CHR 0xA7, CHR 0xD8, CHR 0xB7, CHR 0xD9, CHR 0x84, CHR 0xD8,
      CHR 0xA7, CHR 0xD8, CHR 0xB9, CHR 0xD8, CHR 0xA7, CHR 0xD8, CHR 0xAA, CHR 0x20,
      CHR 0xDA, CHR 0xA9, CHR 0xD8, CHR 0xA7, CHR 0xD8, CHR 0xB1, CHR 0xD8, CHR 0xA8,
      CHR 0xD8, CHR 0xB1]"

text \<open>The comparator of the ads sort in \<open>loadAll\<close>: \<open>a.createdAt > b.createdAt ? -1 : 1\<close>.\<close>

definition ad_cmp :: "ad \<Rightarrow> ad \<Rightarrow> int" where
  "ad_cmp a b = (if createdAt a > createdAt b then -1 else 1)"

text \<open>
  \<open>highlightAdId = Number(searchParams.get("ad") ?? "0") || null\<close>. The argument is the
  number \<open>Number\<close> gives: \<open>Some 0\<close> for a missing parameter, \<open>None\<close> for \<open>NaN\<close>. Both 0 and
  \<open>NaN\<close> become \<open>null\<close>.
\<close>

definition highlightAdId_of :: "int option \<Rightarrow> int option" where
  "highlightAdId_of n = (case n of None \<Rightarrow> None | Some k \<Rightarrow> if k = 0 then None else Some k)"

text \<open>
  The highlight and sort block of \<open>loadAll\<close>, on the ads of this profile. \<open>if (highlightAdId)\<close>
  is true for a number other than 0.
\<close>

definition arrange_ads :: "int option \<Rightarrow> ad list \<Rightarrow> ad list" where
  "arrange_ads highlightAdId onlyThis =
     (case highlightAdId of
        Some h \<Rightarrow>
          if h \<noteq> 0 then splice_unshift (findIndex (\<lambda>a. ad_id a = h) onlyThis) onlyThis
          else js_sort ad_cmp onlyThis
      | None \<Rightarrow> js_sort ad_cmp onlyThis)"

text \<open>
  What \<open>Promise.all\<close> of the three requests settles to: the three response bodies, or the
  rejection with \<open>e?.response?.data\<close> when the error carries one. A body that is \<open>null\<close> or
  missing is \<open>None\<close>.
\<close>

datatype loadAll_outcome =
  Fulfilled public_user "bio_item list option" "ad list option"
| Rejected "string option"

definition loadAll_begin :: "profile_page \<Rightarrow> profile_page" where
  "loadAll_begin s = s\<lparr>err := None, loading := True\<rparr>"

text \<open>
  The rest of \<open>loadAll\<close>, run when the requests settle. When the ads body is \<open>null\<close> the call
  of \<open>filter\<close> raises inside the \<open>try\<close>, after \<open>setUser\<close> and \<open>setBio\<close>: the \<open>catch\<close> sets
  the fixed message, the error having no \<open>response\<close>.
\<close>

definition loadAll_settle ::
  "int \<Rightarrow> int option \<Rightarrow> loadAll_outcome \<Rightarrow> profile_page \<Rightarrow> profile_page" where
  "loadAll_settle profileId highlightAdId outcome s =
     (case outcome of
        Rejected d \<Rightarrow> s\<lparr>err := Some (nullish d msg_loadAll_failed), loading := False\<rparr>
      | Fulfilled u bioData adsData \<Rightarrow>
          (let s1 = s\<lparr>user := Some u, bio := js_sort bio_cmp (nullish bioData [])\<rparr>
           in case adsData of
                None \<Rightarrow> s1\<lparr>err := Some msg_loadAll_failed, loading := False\<rparr>
              | Some data \<Rightarrow>
                  s1\<lparr>allAds := arrange_ads highlightAdId (filter (\<lambda>x. userId x = profileId) data),
                     loading := False\<rparr>))"

text \<open>The push events the page registers handlers for, with their payloads.\<close>

datatype profile_event =
  BioItemAdded bio_item
| BioItemUpdated bio_patch
| BioItemDeleted int int
| CarAdCreated ad
| CarAdUpdated ad_patch
| CarAdDeleted int int
| AdViewUpdated int int

text \<open>Delivery of one event to the registered handler: the handler runs at once on the current state.\<close>

fun deliver :: "int \<Rightarrow> profile_event \<Rightarrow> profile_page \<Rightarrow> profile_page" where
  "deliver profileId (BioItemAdded p) s = s\<lparr>bio := onBioAdded profileId p (bio s)\<rparr>"
| "deliver profileId (BioItemUpdated p) s = s\<lparr>bio := onBioUpdated profileId p (bio s)\<rparr>"
| "deliver profileId (BioItemDeleted u i) s = s\<lparr>bio := onBioDeleted profileId u i (bio s)\<rparr>"
| "deliver profileId (CarAdCreated p) s = s\<lparr>allAds := onAdCreated profileId p (allAds s)\<rparr>"
| "deliver profileId (CarAdUpdated p) s = s\<lparr>allAds := onAdUpdated profileId p (allAds s)\<rparr>"
| "deliver profileId (CarAdDeleted u i) s = s\<lparr>allAds := onAdDeleted profileId u i (allAds s)\<rparr>"
| "deliver profileId (AdViewUpdated i v) s = s\<lparr>allAds := onAdView i v (allAds s)\<rparr>"

definition deliver_all :: "int \<Rightarrow> profile_event list \<Rightarrow> profile_page \<Rightarrow> profile_page" where
  "deliver_all profileId es s = foldl (\<lambda>t e. deliver profileId e t) s es"

text \<open>A sample user and a sample biography entry.\<close>

definition mk_user :: "int \<Rightarrow> public_user" where
  "mk_user i = \<lparr> pu_id = i, firstName = ''f'', lastName = ''l'', username = ''u'',
                 pu_role = User, pu_createdAt = ''2024-01-01'' \<rparr>"

definition mk_bio :: "int \<Rightarrow> int \<Rightarrow> bio_item" where
  "mk_bio i u = \<lparr> bio_id = i, bio_userId = u, isAdvanced = False, bio_title = ''b'',
                  bio_description = ''d'', contactInfo = None,
                  bio_createdAt = ''2024-01-01'', bio_updatedAt = ''2024-01-01'' \<rparr>"

section \<open>Dashboard: loadAds\<close>

record dashboard =
  d_ads :: "ad list"
  adsLoading :: bool
  d_err :: "string option"

definition msg_loadAds_failed :: string where
  "msg_loadAds_failed =
     [CHR 0xD8, CHR 0xAE, CHR 0xD8, CHR 0xB7, CHR 0xD8, CHR 0xA7, CHR 0x20, CHR 0xD8,
      CHR 0xAF, CHR 0xD8, CHR 0xB1, CHR 0x20, CHR 0xD8, CHR 0xAF, CHR 0xD8, CHR 0xB1,
      CHR 0xDB, CHR 0x8C, CHR 0xD8, CHR 0xA7, CHR 0xD9, CHR 0x81, CHR 0xD8, CHR 0xAA,
      CHR 0x20, CHR 0xD8, CHR 0xA2, CHR 0xDA, CHR 0xAF, CHR 0xD9, CHR 0x87, CHR 0xDB,
      CHR 0x8C, CHR 0xE2, CHR 0x80, CHR 0x8C, CHR 0xD9, CHR 0x87, CHR 0xD8, CHR 0xA7,
      CHR 0xDB, CHR 0x8C, CHR 0x20, CHR 0xD8, CHR 0xB4, CHR 0xD9, CHR 0x85, CHR 0xD8,
      CHR 0xA7]"

text \<open>The comparator of the dashboard's sort: \<open>a.createdAt < b.createdAt ? 1 : -1\<close>.\<close>

definition mine_cmp :: "ad \<Rightarrow> ad \<Rightarrow> int" where
  "mine_cmp a b = (if createdAt a < createdAt b then 1 else -1)"

datatype 'a fetch_outcome = Resolved "'a option" | Failed "string option"

definition loadAds_begin :: "dashboard \<Rightarrow> dashboard" where
  "loadAds_begin s = s\<lparr>d_err := None, adsLoading := True\<rparr>"

definition loadAds_settle :: "ad list fetch_outcome \<Rightarrow> dashboard \<Rightarrow> dashboard" where
  "loadAds_settle outcome s =
     (case outcome of
        Resolved data \<Rightarrow> s\<lparr>d_ads := js_sort mine_cmp (nullish data []), adsLoading := False\<rparr>
      | Failed d \<Rightarrow> s\<lparr>d_err := Some (nullish d msg_loadAds_failed), adsLoading := False\<rparr>)"

section \<open>BioManager: load\<close>

text \<open>
  \<open>BioManager.load\<close>. The raw rows of the response are normalised by \<open>normalizeBioItem\<close>,
  which is a parameter here; a toast is an entry of a log, with its title and description.
\<close>

record 'item bio_manager =
  items :: "'item list"
  bm_loading :: bool
  toasts :: "(string \<times> string) list"

definition msg_bio_failed :: string where
  "msg_bio_failed =
     [CHR 0xD8, CHR 0xAE, CHR 0xD8, CHR 0xB7, CHR 0xD8, CHR 0xA7, CHR 0x20, CHR 0xD8,
      CHR 0xAF, CHR 0xD8, CHR 0xB1, CHR 0x20, CHR 0xD8, CHR 0xAF, CHR 0xD8, CHR 0xB1,
      CHR 0xDB, CHR 0x8C, CHR 0xD8, CHR 0xA7, CHR 0xD9, CHR 0x81, CHR 0xD8, CHR 0xAA,
      CHR 0x20, CHR 0xD8, CHR 0xA8, CHR 0xDB, CHR 0x8C, CHR 0xD9, CHR 0x88, CHR 0xDA,
      CHR 0xAF, CHR 0xD8, CHR 0xB1, CHR 0xD8, CHR 0xA7, CHR 0xD9, CHR 0x81, CHR 0xDB,
      CHR 0x8C]"

definition msg_retry :: string where
  "msg_retry =
     [CHR 0xD9, CHR 0x84, CHR 0xD8, CHR 0xB7, CHR 0xD9, CHR 0x81, CHR 0xD8, CHR 0xA7,
      CHR 0xD9, CHR 0x8B, CHR 0x20, CHR 0xD8, CHR 0xAF, CHR 0xD9, CHR 0x88, CHR 0xD8,
      CHR 0xA8, CHR 0xD8, CHR 0xA7, CHR 0xD8, CHR 0xB1, CHR 0xD9, CHR 0x87, CHR 0x20,
      CHR 0xD8, CHR 0xAA, CHR 0xD9, CHR 0x84, CHR 0xD8, CHR 0xA7, CHR 0xD8, CHR 0xB4,
      CHR 0x20, CHR 0xDA, CHR 0xA9, CHR 0xD9, CHR 0x86, CHR 0xDB, CHR 0x8C, CHR 0xD8,
      CHR 0xAF, CHR 0x2E]"

definition load_begin :: "'item bio_manager \<Rightarrow> 'item bio_manager" where
  "load_begin s = s\<lparr>bm_loading := True\<rparr>"

definition load_settle ::
  "('raw \<Rightarrow> 'item) \<Rightarrow> 'raw list fetch_outcome \<Rightarrow> 'item bio_manager \<Rightarrow> 'item bio_manager" where
  "load_settle normalizeBioItem outcome s =
     (case outcome of
        Resolved data \<Rightarrow> s\<lparr>items := map normalizeBioItem (nullish data []), bm_loading := False\<rparr>
      | Failed d \<Rightarrow>
          s\<lparr>items := [], toasts := toasts s @ [(msg_bio_failed, nullish d msg_retry)],
            bm_loading := False\<rparr>)"

section \<open>Home page: broadcast messages and the view click\<close>

record telegram_msg =
  tg_id :: int
  messageId :: int
  tg_text :: string
  fromUsername :: "string option"
  fromFirstName :: "string option"
  receivedAt :: string
  telegramLink :: string

text \<open>The updater \<open>onTelegramMsg\<close> passes to \<open>setTelegramMsgs\<close>.\<close>

definition onTelegramMsg :: "telegram_msg \<Rightarrow> telegram_msg list \<Rightarrow> telegram_msg list" where
  "onTelegramMsg msg prev =
     (if list_ex (\<lambda>m. tg_id m = tg_id msg) prev then prev else msg # prev)"









section \<open>Decimal strings\<close>

text \<open>\<open>String(n)\<close> for an integer \<open>n\<close>: its decimal digits, with a minus sign when negative.\<close>

definition digit_char :: "nat \<Rightarrow> char" where
  "digit_char d = ''0123456789'' ! (d mod 10)"

fun nat_digits :: "nat \<Rightarrow> string" where
  "nat_digits n = (if n < 10 then [digit_char n] else nat_digits (n div 10) @ [digit_char (n mod 10)])"

declare nat_digits.simps [simp del]

definition String_of_int :: "int \<Rightarrow> string" where
  "String_of_int i = (if i < 0 then CHR ''-'' # nat_digits (nat (- i)) else nat_digits (nat i))"

section \<open>The realtime connection\<close>

text \<open>
  The module \<open>signalr\<close> holds one variable, \<open>connection\<close>, a reference to a
  \<open>HubConnection\<close> object or \<open>null\<close>. The objects built so far are kept in a store, each
  with its state; \<open>built\<close> is their number and the next reference. An accepted
  \<open>invoke\<close> is recorded with the object, the method and the argument; \<open>console\<close>
  records the calls of \<open>console.log\<close>.
\<close>

datatype HubConnectionState = Disconnected | Connecting | Connected | Disconnecting | Reconnecting

datatype console_entry =
  LogHubUrl | LogConnected | LogClosed | LogReconnecting | LogReconnected

text \<open>
  Modelled from the spec: the push service, which is not part of the repository. \<open>groups\<close>
  holds the topics the service has joined for the present transport connection of each
  object: a \<open>JoinProfile\<close> adds the topic, a \<open>LeaveProfile\<close> removes it, and, as the spec
  says that subscriptions do not survive a transport-level reconnect, a reconnect of an
  object removes its topics.
\<close>

record signalr =
  connection :: "nat option"
  hubs :: "nat \<rightharpoonup> HubConnectionState"
  built :: nat
  invokes :: "(nat \<times> string \<times> string) list"
  console :: "console_entry list"
  groups :: "(nat \<times> string) list"

definition signalr_init :: signalr where
  "signalr_init =
     \<lparr> connection = None, hubs = Map.empty, built = 0, invokes = [], console = [], groups = [] \<rparr>"

datatype sr_error = StartFailed | NotConnected | NullConnection

text \<open>
  \<open>startSignalR\<close> up to its \<open>await connection.start()\<close>: either the guard returns the
  existing object, or a new object is built, assigned to \<open>connection\<close> and started, which
  puts it in the state \<open>Connecting\<close>.
\<close>

datatype start_result = Existing nat | Started nat

definition startSignalR_begin :: "signalr \<Rightarrow> start_result \<times> signalr" where
  "startSignalR_begin w =
     (case connection w of
        Some c \<Rightarrow>
          if hubs w c = Some Connected then (Existing c, w)
          else (Started (built w),
                w\<lparr>connection := Some (built w), hubs := (hubs w)(built w \<mapsto> Connecting),
                  built := built w + 1, console := console w @ [LogHubUrl]\<rparr>)
      | None \<Rightarrow>
          (Started (built w),
           w\<lparr>connection := Some (built w), hubs := (hubs w)(built w \<mapsto> Connecting),
             built := built w + 1, console := console w @ [LogHubUrl]\<rparr>))"

text \<open>
  The promise of \<open>start()\<close> of the object \<open>h\<close> settles: fulfilled, the object is
  \<open>Connected\<close>; rejected, it is \<open>Disconnected\<close>. It settles only for an object that is
  \<open>Connecting\<close>.
\<close>

definition start_settled :: "nat \<Rightarrow> bool \<Rightarrow> signalr \<Rightarrow> signalr" where
  "start_settled h ok w =
     (if hubs w h = Some Connecting
      then w\<lparr>hubs := (hubs w)(h \<mapsto> (if ok then Connected else Disconnected))\<rparr>
      else w)"

text \<open>
  The rest of \<open>startSignalR\<close> after a fulfilled \<open>start()\<close>: it logs the state of, and
  returns, the object the variable \<open>connection\<close> refers to then; reading the state of
  \<open>null\<close> raises.
\<close>

definition startSignalR_resume :: "signalr \<Rightarrow> (sr_error + nat) \<times> signalr" where
  "startSignalR_resume w =
     (case connection w of
        None \<Rightarrow> (Inl NullConnection, w)
      | Some c \<Rightarrow> (Inr c, w\<lparr>console := console w @ [LogConnected]\<rparr>))"

text \<open>\<open>startSignalR\<close> with no other call running between its parts; \<open>ok\<close> is the outcome of \<open>start()\<close>.\<close>

definition startSignalR :: "bool \<Rightarrow> signalr \<Rightarrow> (sr_error + nat) \<times> signalr" where
  "startSignalR ok w =
     (case startSignalR_begin w of
        (Existing c, w1) \<Rightarrow> (Inr c, w1)
      | (Started h, w1) \<Rightarrow>
          (let w2 = start_settled h ok w1
           in if ok then startSignalR_resume w2 else (Inl StartFailed, w2)))"

text \<open>
  \<open>conn.invoke(method, arg)\<close>: rejected unless the object is \<open>Connected\<close>; accepted, it is
  recorded, and the service joins or leaves the topic.
\<close>

definition invoke :: "nat \<Rightarrow> string \<Rightarrow> string \<Rightarrow> signalr \<Rightarrow> (sr_error + unit) \<times> signalr" where
  "invoke c method arg w =
     (if hubs w c = Some Connected
      then (Inr (),
            w\<lparr>invokes := invokes w @ [(c, method, arg)],
              groups := (if method = ''JoinProfile'' then
                           (if (c, arg) \<in> set (groups w) then groups w else groups w @ [(c, arg)])
                         else if method = ''LeaveProfile'' then
                           filter (\<lambda>g. g \<noteq> (c, arg)) (groups w)
                         else groups w)\<rparr>)
      else (Inl NotConnected, w))"

text \<open>\<open>joinProfile\<close> and \<open>leaveProfile\<close>: \<open>startSignalR\<close>, then the invoke with \<open>String(userId)\<close>.\<close>

definition invoke_on ::
  "string \<Rightarrow> int \<Rightarrow> bool \<Rightarrow> signalr \<Rightarrow> (sr_error + unit) \<times> signalr" where
  "invoke_on method uid ok w =
     (case startSignalR ok w of
        (Inl e, w1) \<Rightarrow> (Inl e, w1)
      | (Inr c, w1) \<Rightarrow> invoke c method (String_of_int uid) w1)"

definition joinProfile :: "int \<Rightarrow> bool \<Rightarrow> signalr \<Rightarrow> (sr_error + unit) \<times> signalr" where
  "joinProfile uid ok w = invoke_on ''JoinProfile'' uid ok w"

definition leaveProfile :: "int \<Rightarrow> bool \<Rightarrow> signalr \<Rightarrow> (sr_error + unit) \<times> signalr" where
  "leaveProfile uid ok w = invoke_on ''LeaveProfile'' uid ok w"

text \<open>
  The transport of the object \<open>h\<close> loses its connection and regains it. The callbacks the
  module registers with \<open>onreconnecting\<close> and \<open>onreconnected\<close> call \<open>console.log\<close> and
  nothing else.
\<close>

definition reconnecting :: "nat \<Rightarrow> signalr \<Rightarrow> signalr" where
  "reconnecting h w =
     (if hubs w h = Some Connected
      then w\<lparr>hubs := (hubs w)(h \<mapsto> Reconnecting), console := console w @ [LogReconnecting]\<rparr>
      else w)"

definition reconnected :: "nat \<Rightarrow> signalr \<Rightarrow> signalr" where
  "reconnected h w =
     (if hubs w h = Some Reconnecting
      then w\<lparr>hubs := (hubs w)(h \<mapsto> Connected), console := console w @ [LogReconnected],
             groups := filter (\<lambda>g. fst g \<noteq> h) (groups w)\<rparr>
      else w)"

text \<open>
  The topics that are active on the object \<open>c\<close> according to the invokes made: joined
  and not left since.
\<close>

definition topic_step :: "nat \<Rightarrow> string list \<Rightarrow> nat \<times> string \<times> string \<Rightarrow> string list" where
  "topic_step c ts i =
     (case i of (h, method, arg) \<Rightarrow>
        if h = c \<and> method = ''JoinProfile'' then (if arg \<in> set ts then ts else ts @ [arg])
        else if h = c \<and> method = ''LeaveProfile'' then filter (\<lambda>t. t \<noteq> arg) ts
        else ts)"

definition active_topics :: "nat \<Rightarrow> (nat \<times> string \<times> string) list \<Rightarrow> string list" where
  "active_topics c called = foldl (topic_step c) [] called"

text \<open>The number of \<open>JoinProfile\<close> invokes made for a topic.\<close>

definition join_count :: "string \<Rightarrow> signalr \<Rightarrow> nat" where
  "join_count topic w =
     length (filter (\<lambda>i. fst (snd i) = ''JoinProfile'' \<and> snd (snd i) = topic) (invokes w))"

section \<open>Numbers\<close>

text \<open>
  A JavaScript number is an IEEE 754 double: a finite value, an infinity or \<open>NaN\<close>. A
  finite double is modelled by the rational it stands for, the two zeros being one value; the
  functions below take any rational and are meant for those that are doubles. The
  arithmetic operators round their exact result to the nearest double, a tie going to the
  double with the even significand and a result of magnitude \<open>2^1024\<close> or more, after
  rounding, to an infinity.
\<close>

datatype double = Fin rat | PosInf | NegInf | NaN

text \<open>The number of binary digits of a positive integer, and the power of two with an integer exponent.\<close>

function bits :: "int \<Rightarrow> int" where
  "bits n = (if n \<le> 0 then 0 else 1 + bits (n div 2))"
  by pat_completeness auto
termination
  by (relation "measure nat") auto

declare bits.simps [simp del]

definition pow2 :: "int \<Rightarrow> rat" where
  "pow2 k = (if 0 \<le> k then 2 ^ nat k else 1 / 2 ^ nat (- k))"

text \<open>For a positive rational \<open>a\<close>, the exponent \<open>e\<close> with \<open>2^e \<le> a < 2^(e+1)\<close>.\<close>

definition ilog2 :: "rat \<Rightarrow> int" where
  "ilog2 a =
     (let k = bits (fst (quotient_of a)) - bits (snd (quotient_of a))
      in if pow2 k \<le> a then k else k - 1)"

text \<open>
  Rounding to the nearest double: the unit in the last place is \<open>2^(e-52)\<close> for the
  exponent \<open>e\<close> of the value, and \<open>2^(-1074)\<close> below the normal range. The rounded
  magnitude is \<open>m\<close> units with \<open>m\<close> at most \<open>2^53\<close>; it is \<open>2^1024\<close> or more, and the
  result an infinity, when the exponent is 1024 or more, or is 1023 with \<open>m\<close> rounded up
  to \<open>2^53\<close>.
\<close>

definition round_double :: "rat \<Rightarrow> double" where
  "round_double q =
     (if q = 0 then Fin 0
      else
        (let a = \<bar>q\<bar>;
             e = max (ilog2 a) (- 1022);
             u = pow2 (e - 52);
             n = \<lfloor>a / u\<rfloor>;
             r = a / u - of_int n;
             m = (if r < 1 / 2 then n else if 1 / 2 < r then n + 1
                  else if even n then n else n + 1);
             y = of_int m * u
         in if 1024 \<le> e \<or> (e = 1023 \<and> m = 2 ^ 53) then (if q < 0 then NegInf else PosInf)
            else Fin (if q < 0 then - y else y)))"

text \<open>\<open>x + y\<close>, \<open>x - y\<close>, \<open>x * y\<close> and \<open>x / y\<close>.\<close>

fun dadd :: "double \<Rightarrow> double \<Rightarrow> double" where
  "dadd NaN y = NaN"
| "dadd x NaN = NaN"
| "dadd PosInf NegInf = NaN"
| "dadd NegInf PosInf = NaN"
| "dadd PosInf y = PosInf"
| "dadd NegInf y = NegInf"
| "dadd x PosInf = PosInf"
| "dadd x NegInf = NegInf"
| "dadd (Fin a) (Fin b) = round_double (a + b)"

fun dneg :: "double \<Rightarrow> double" where
  "dneg (Fin a) = Fin (- a)"
| "dneg PosInf = NegInf"
| "dneg NegInf = PosInf"
| "dneg NaN = NaN"

definition dsub :: "double \<Rightarrow> double \<Rightarrow> double" where
  "dsub x y = dadd x (dneg y)"

fun dmul :: "double \<Rightarrow> double \<Rightarrow> double" where
  "dmul NaN y = NaN"
| "dmul x NaN = NaN"
| "dmul (Fin a) (Fin b) = round_double (a * b)"
| "dmul (Fin a) PosInf = (if a = 0 then NaN else if 0 < a then PosInf else NegInf)"
| "dmul (Fin a) NegInf = (if a = 0 then NaN else if 0 < a then NegInf else PosInf)"
| "dmul PosInf (Fin b) = (if b = 0 then NaN else if 0 < b then PosInf else NegInf)"
| "dmul NegInf (Fin b) = (if b = 0 then NaN else if 0 < b then NegInf else PosInf)"
| "dmul PosInf PosInf = PosInf"
| "dmul PosInf NegInf = NegInf"
| "dmul NegInf PosInf = NegInf"
| "dmul NegInf NegInf = PosInf"

text \<open>Division by a finite number, a zero divisor being the positive zero.\<close>

fun ddiv :: "double \<Rightarrow> rat \<Rightarrow> double" where
  "ddiv NaN b = NaN"
| "ddiv (Fin a) b =
     (if b = 0 then (if a = 0 then NaN else if 0 < a then PosInf else NegInf)
      else round_double (a / b))"
| "ddiv PosInf b = (if 0 \<le> b then PosInf else NegInf)"
| "ddiv NegInf b = (if 0 \<le> b then NegInf else PosInf)"

text \<open>\<open>x < y\<close> and \<open>x <= y\<close>, both false when an operand is \<open>NaN\<close>; \<open>x > y\<close> is \<open>y < x\<close>.\<close>

fun dless :: "double \<Rightarrow> double \<Rightarrow> bool" where
  "dless NaN y = False"
| "dless x NaN = False"
| "dless (Fin a) (Fin b) = (a < b)"
| "dless x NegInf = False"
| "dless PosInf y = False"
| "dless NegInf y = True"
| "dless x PosInf = True"

fun dle :: "double \<Rightarrow> double \<Rightarrow> bool" where
  "dle NaN y = False"
| "dle x NaN = False"
| "dle (Fin a) (Fin b) = (a \<le> b)"
| "dle NegInf y = True"
| "dle x PosInf = True"
| "dle x NegInf = False"
| "dle PosInf y = False"

text \<open>
  \<open>Number.isFinite\<close>, \<open>Math.abs\<close>, \<open>Math.floor\<close> and \<open>Math.round\<close>, which rounds a half
  upwards. Their results are exact.
\<close>

fun Number_isFinite :: "double \<Rightarrow> bool" where
  "Number_isFinite (Fin a) = True"
| "Number_isFinite x = False"

fun Math_abs :: "double \<Rightarrow> double" where
  "Math_abs (Fin a) = Fin \<bar>a\<bar>"
| "Math_abs NaN = NaN"
| "Math_abs x = PosInf"

fun Math_floor :: "double \<Rightarrow> double" where
  "Math_floor (Fin a) = Fin (of_int \<lfloor>a\<rfloor>)"
| "Math_floor x = x"

fun Math_round :: "double \<Rightarrow> double" where
  "Math_round (Fin a) = Fin (of_int \<lfloor>a + 1 / 2\<rfloor>)"
| "Math_round x = x"

section \<open>Price texts\<close>

text \<open>
  \<open>n.toLocaleString("fa-IR")\<close> is library code and a parameter \<open>L\<close> of the two
  formatters. For a whole number from 0 that has all its digits in the double, that is,
  below \<open>2^53\<close>, it gives the decimal digits as the Persian digits U+06F0 to U+06F9, in
  groups of three separated by U+066C: this is \<open>toFa\<close>, and \<open>fa_locale\<close> is a sample
  \<open>L\<close> that gives it for those numbers and the empty text for the others.
\<close>

definition fa_digit :: "nat \<Rightarrow> string" where
  "fa_digit d =
     [CHR 0xDB, [CHR 0xB0, CHR 0xB1, CHR 0xB2, CHR 0xB3, CHR 0xB4,
                 CHR 0xB5, CHR 0xB6, CHR 0xB7, CHR 0xB8, CHR 0xB9] ! (d mod 10)]"

definition fa_sep :: string where
  "fa_sep = [CHR 0xD9, CHR 0xAC]"

definition fa_upto_999 :: "nat \<Rightarrow> string" where
  "fa_upto_999 n =
     (if n < 10 then fa_digit n
      else if n < 100 then fa_digit (n div 10) @ fa_digit n
      else fa_digit (n div 100) @ fa_digit (n div 10) @ fa_digit n)"

fun toFa :: "nat \<Rightarrow> string" where
  "toFa n =
     (if n < 1000 then fa_upto_999 n
      else toFa (n div 1000) @ fa_sep
           @ fa_digit (n div 100) @ fa_digit (n div 10) @ fa_digit n)"

declare toFa.simps [simp del]

text \<open>The words of the texts, as UTF-8 bytes, each with the blanks the source writes around it.\<close>

definition str_milliard :: string where
  "str_milliard = [CHR 0x20, CHR 0xD9, CHR 0x85, CHR 0xDB, CHR 0x8C, CHR 0xD9, CHR 0x84, CHR 0xDB,
                   CHR 0x8C, CHR 0xD8, CHR 0xA7, CHR 0xD8, CHR 0xB1, CHR 0xD8, CHR 0xAF]"

definition str_million :: string where
  "str_million = [CHR 0x20, CHR 0xD9, CHR 0x85, CHR 0xDB, CHR 0x8C, CHR 0xD9, CHR 0x84, CHR 0xDB,
                  CHR 0x8C, CHR 0xD9, CHR 0x88, CHR 0xD9, CHR 0x86]"

definition str_hezar :: string where
  "str_hezar = [CHR 0x20, CHR 0xD9, CHR 0x87, CHR 0xD8, CHR 0xB2, CHR 0xD8, CHR 0xA7, CHR 0xD8, CHR 0xB1]"

definition str_toman :: string where
  "str_toman = [CHR 0xD8, CHR 0xAA, CHR 0xD9, CHR 0x88, CHR 0xD9, CHR 0x85, CHR 0xD8, CHR 0xA7,
                CHR 0xD9, CHR 0x86]"

definition str_va :: string where
  "str_va = [CHR 0x20, CHR 0xD9, CHR 0x88, CHR 0x20]"

definition str_dash :: string where
  "str_dash = [CHR 0xE2, CHR 0x80, CHR 0x94]"

text \<open>The text for zero of \<open>formatFromMillionInput\<close>: the Persian digit zero, a blank and the currency.\<close>

definition str_zero_toman :: string where
  "str_zero_toman = [CHR 0xDB, CHR 0xB0, CHR 0x20] @ str_toman"

text \<open>\<open>parts.join(sep)\<close> and \<open>s.includes(t)\<close>.\<close>

fun join :: "string \<Rightarrow> string list \<Rightarrow> string" where
  "join sep [] = []"
| "join sep [p] = p"
| "join sep (p # q # ps) = p @ sep @ join sep (q # ps)"

fun str_includes :: "string \<Rightarrow> string \<Rightarrow> bool" where
  "str_includes [] t = (t = [])"
| "str_includes (c # s) t = (take (length t) (c # s) = t \<or> str_includes s t)"

definition fa_locale :: "double \<Rightarrow> string" where
  "fa_locale x =
     (case x of
        Fin a \<Rightarrow> if 0 \<le> a \<and> a < 2 ^ 53 \<and> a = of_int \<lfloor>a\<rfloor> then toFa (nat \<lfloor>a\<rfloor>) else []
      | _ \<Rightarrow> [])"

text \<open>\<open>priceToText\<close> of the public profile page.\<close>

definition priceToText :: "(double \<Rightarrow> string) \<Rightarrow> double \<Rightarrow> string" where
  "priceToText L millionVal =
     (if \<not> Number_isFinite millionVal \<or> dle millionVal (Fin 0) then str_dash
      else
        (let billion = Math_floor (ddiv millionVal 1000);
             rem = dsub millionVal (dmul billion (Fin 1000));
             million = Math_floor rem;
             thousand = Math_round (dmul (dsub rem million) (Fin 1000));
             parts = (if dless (Fin 0) billion then [L billion @ str_milliard] else [])
                   @ (if dless (Fin 0) million then [L million @ str_million] else [])
                   @ (if dless (Fin 0) thousand then [L thousand @ str_hezar] else [])
         in if length parts = 0 then str_dash
            else join str_va parts @ [CHR 0x20] @ str_toman))"

text \<open>\<open>priceToText\<close> of the home page; its \<open>Number(v)\<close> leaves a number as it is.\<close>

definition priceToText_home :: "(double \<Rightarrow> string) \<Rightarrow> double \<Rightarrow> string" where
  "priceToText_home L v =
     (let n = v
      in if \<not> Number_isFinite n \<or> dle n (Fin 0) then str_dash
         else
           (let billion = Math_floor (ddiv n 1000);
                rem = dsub n (dmul billion (Fin 1000));
                million = Math_floor rem;
                thousand = Math_round (dmul (dsub rem million) (Fin 1000));
                parts = (if dless (Fin 0) billion then [L billion @ str_milliard] else [])
                      @ (if dless (Fin 0) million then [L million @ str_million] else [])
                      @ (if dless (Fin 0) thousand then [L thousand @ str_hezar] else [])
            in if length parts \<noteq> 0 then join str_va parts @ [CHR 0x20] @ str_toman
               else str_dash))"

text \<open>
  \<open>formatFromMillionInput\<close> of the dialog for a new ad. After the rounding, a thousand
  part of 1000 or more is carried into the millions, and then a million part of 1000 or
  more into the billions.
\<close>

definition formatFromMillionInput :: "(double \<Rightarrow> string) \<Rightarrow> double \<Rightarrow> string" where
  "formatFromMillionInput L v =
     (if \<not> Number_isFinite v then []
      else
        (let sign = (if dless v (Fin 0) then ''-'' else []);
             abs = Math_abs v;
             billion = Math_floor (ddiv abs 1000);
             remAfterBillion = dsub abs (dmul billion (Fin 1000));
             million = Math_floor remAfterBillion;
             frac = dsub remAfterBillion million;
             thousand0 = Math_round (dmul frac (Fin 1000));
             carry1 = dle (Fin 1000) thousand0;
             thousand = (if carry1 then dsub thousand0 (Fin 1000) else thousand0);
             millionAdj0 = (if carry1 then dadd million (Fin 1) else million);
             carry2 = dle (Fin 1000) millionAdj0;
             extraB = Math_floor (ddiv millionAdj0 1000);
             billionAdj = (if carry2 then dadd billion extraB else billion);
             millionAdj = (if carry2 then dsub millionAdj0 (dmul extraB (Fin 1000)) else millionAdj0);
             parts = (if dless (Fin 0) billionAdj then [L billionAdj @ str_milliard] else [])
                   @ (if dless (Fin 0) millionAdj then [L millionAdj @ str_million] else [])
                   @ (if dless (Fin 0) thousand
                      then [L thousand @ str_hezar @ [CHR 0x20] @ str_toman] else [])
         in if length parts = 0 then str_zero_toman
            else
              (let hasToman = str_includes (last parts) str_toman;
                   joined = join str_va parts
               in sign @ (if hasToman then joined else joined @ [CHR 0x20] @ str_toman))))"

text \<open>
  The three numbers both formatters compute from a positive number of millions before
  anything is carried: the billions, the millions and the rounded thousands.
\<close>

definition billion_of :: "double \<Rightarrow> double" where
  "billion_of v = Math_floor (ddiv v 1000)"

definition million_of :: "double \<Rightarrow> double" where
  "million_of v = Math_floor (dsub v (dmul (billion_of v) (Fin 1000)))"

definition thousand_of :: "double \<Rightarrow> double" where
  "thousand_of v =
     Math_round (dmul (dsub (dsub v (dmul (billion_of v) (Fin 1000))) (million_of v)) (Fin 1000))"

section \<open>JavaScript values\<close>

text \<open>
  \<open>errorToText\<close> takes a value of type \<open>any\<close>. The values modelled are \<open>undefined\<close>,
  \<open>null\<close>, booleans, numbers, \<open>bigint\<close>s, strings, arrays, plain objects and functions.
  An object is the list of its own properties in the order \<open>Object.keys\<close> gives, each key
  once; its prototype is \<open>Object.prototype\<close>. A function \<open>JFun src r\<close> has the source text
  \<open>src\<close>, no own property that the program reads, and returns \<open>r\<close> whenever it is
  called, with no other effect. Symbols, getters, proxies, wrapper objects and functions
  that raise or do not return are outside the model.
\<close>

datatype jsval =
  JUndefined | JNull | JBool bool | JNum double | JBigInt int | JStr string
| JArr "jsval list" | JObj "(string \<times> jsval) list" | JFun string jsval

text \<open>What the operations of the language and its library raise here is always a \<open>TypeError\<close>.\<close>

datatype exn = TypeError

text \<open>Running a list of computations from left to right until one raises.\<close>

fun sequence :: "('e + 'a) list \<Rightarrow> 'e + 'a list" where
  "sequence [] = Inr []"
| "sequence (r # rs) =
     (case r of
        Inl e \<Rightarrow> Inl e
      | Inr x \<Rightarrow> (case sequence rs of Inl e \<Rightarrow> Inl e | Inr xs \<Rightarrow> Inr (x # xs)))"

text \<open>
  \<open>Boolean(v)\<close>, the truth value \<open>if\<close>, \<open>&&\<close>, \<open>||\<close> and \<open>filter(Boolean)\<close> look at: of the
  numbers, the zeros and \<open>NaN\<close> are false.
\<close>

fun truthy :: "jsval \<Rightarrow> bool" where
  "truthy JUndefined = False"
| "truthy JNull = False"
| "truthy (JBool b) = b"
| "truthy (JNum x) = (x \<noteq> Fin 0 \<and> x \<noteq> NaN)"
| "truthy (JBigInt n) = (n \<noteq> 0)"
| "truthy (JStr s) = (s \<noteq> [])"
| "truthy (JArr xs) = True"
| "truthy (JObj kvs) = True"
| "truthy (JFun src r) = True"

definition js_or :: "jsval \<Rightarrow> jsval \<Rightarrow> jsval" where
  "js_or a b = (if truthy a then a else b)"

text \<open>
  \<open>v.k\<close> for the names the function reads (\<open>response\<close>, \<open>data\<close>, \<open>title\<close>, \<open>Title\<close>,
  \<open>detail\<close>, \<open>Detail\<close>, \<open>errors\<close>, \<open>Errors\<close>, \<open>message\<close>), none of which a prototype
  defines: the own property of an object, and \<open>undefined\<close> otherwise. \<open>v?.k\<close> is
  \<open>undefined\<close> for \<open>undefined\<close> and \<open>null\<close>.
\<close>

fun get_prop :: "jsval \<Rightarrow> string \<Rightarrow> jsval" where
  "get_prop (JObj kvs) k = (case map_of kvs k of None \<Rightarrow> JUndefined | Some v \<Rightarrow> v)"
| "get_prop v k = JUndefined"

definition opt_prop :: "jsval \<Rightarrow> string \<Rightarrow> jsval" where
  "opt_prop v k = (if v = JUndefined \<or> v = JNull then JUndefined else get_prop v k)"

text \<open>
  The keys \<open>Object.keys(v)\<close> gives for an object or an array, each with the value \<open>v[k]\<close>:
  the own properties of an object, the indices of an array.
\<close>

fun own_entries :: "jsval \<Rightarrow> (string \<times> jsval) list" where
  "own_entries (JObj kvs) = kvs"
| "own_entries (JArr xs) = zip (map (\<lambda>i. String_of_int (int i)) [0..<length xs]) xs"
| "own_entries v = []"

text \<open>
  The primitive values, and the string of a primitive value. The string of a number,
  \<open>Number::toString\<close>, is library code and a parameter \<open>N\<close> of every function from here
  on.
\<close>

fun is_primitive :: "jsval \<Rightarrow> bool" where
  "is_primitive (JArr xs) = False"
| "is_primitive (JObj kvs) = False"
| "is_primitive (JFun src r) = False"
| "is_primitive v = True"

fun prim_text :: "(double \<Rightarrow> string) \<Rightarrow> jsval \<Rightarrow> string" where
  "prim_text N JUndefined = ''undefined''"
| "prim_text N JNull = ''null''"
| "prim_text N (JBool b) = (if b then ''true'' else ''false'')"
| "prim_text N (JNum x) = N x"
| "prim_text N (JBigInt n) = String_of_int n"
| "prim_text N (JStr s) = s"
| "prim_text N v = []"

text \<open>
  What calling the method \<open>k\<close> of an object gives: the result of the own property \<open>k\<close>
  when that is a function, the result \<open>inherited\<close> of the prototype's method when the
  object has no own property \<open>k\<close>, and \<open>None\<close> when the own property is not a function.
\<close>

definition method_result :: "(string \<times> jsval) list \<Rightarrow> string \<Rightarrow> jsval \<Rightarrow> jsval option" where
  "method_result kvs k inherited =
     (case map_of kvs k of
        None \<Rightarrow> Some inherited
      | Some (JFun src r) \<Rightarrow> Some r
      | Some _ \<Rightarrow> None)"

text \<open>
  The conversion of an object to a primitive value for a string: the result of its
  \<open>toString\<close> when that is callable and gives a primitive value, otherwise that of its
  \<open>valueOf\<close> likewise, otherwise a \<open>TypeError\<close>. \<open>Object.prototype.toString\<close> gives
  \<open>[object Object]\<close> and \<open>Object.prototype.valueOf\<close> the object itself.
\<close>

definition OrdinaryToPrimitive :: "(string \<times> jsval) list \<Rightarrow> exn + jsval" where
  "OrdinaryToPrimitive kvs =
     (let viaValueOf =
            (case method_result kvs ''valueOf'' (JObj kvs) of
               None \<Rightarrow> Inl TypeError
             | Some p \<Rightarrow> if is_primitive p then Inr p else Inl TypeError)
      in case method_result kvs ''toString'' (JStr ''[object Object]'') of
           None \<Rightarrow> viaValueOf
         | Some p \<Rightarrow> if is_primitive p then Inr p else viaValueOf)"

text \<open>
  The conversion to a string that \<open>String(v)\<close>, a template literal and \<open>join\<close> apply.
  An array is joined with commas, \<open>undefined\<close> and \<open>null\<close> elements giving the empty
  string; a function gives its source text.
\<close>

fun ToString :: "(double \<Rightarrow> string) \<Rightarrow> jsval \<Rightarrow> exn + string" where
  "ToString N (JArr xs) =
     (case sequence (map (\<lambda>x. case x of JUndefined \<Rightarrow> Inr [] | JNull \<Rightarrow> Inr [] | _ \<Rightarrow> ToString N x) xs) of
        Inl e \<Rightarrow> Inl e
      | Inr ss \<Rightarrow> Inr (join '','' ss))"
| "ToString N (JObj kvs) =
     (case OrdinaryToPrimitive kvs of Inl e \<Rightarrow> Inl e | Inr p \<Rightarrow> Inr (prim_text N p))"
| "ToString N (JFun src r) = Inr src"
| "ToString N v = Inr (prim_text N v)"

text \<open>\<open>xs.join(sep)\<close> on an array of values.\<close>

definition array_join :: "(double \<Rightarrow> string) \<Rightarrow> string \<Rightarrow> jsval list \<Rightarrow> exn + string" where
  "array_join N sep xs =
     (case sequence (map (\<lambda>x. case x of JUndefined \<Rightarrow> Inr [] | JNull \<Rightarrow> Inr [] | _ \<Rightarrow> ToString N x) xs) of
        Inl e \<Rightarrow> Inl e
      | Inr ss \<Rightarrow> Inr (join sep ss))"

text \<open>
  The quoting of a string by \<open>JSON.stringify\<close>: the quote, the backslash and the control
  characters are escaped.
\<close>

definition hex_digit :: "nat \<Rightarrow> char" where
  "hex_digit d = ''0123456789abcdef'' ! (d mod 16)"

definition json_escape :: "char \<Rightarrow> string" where
  "json_escape c =
     (if c = CHR 0x22 then [CHR 0x5C, CHR 0x22]
      else if c = CHR 0x5C then [CHR 0x5C, CHR 0x5C]
      else if c = CHR 0x08 then [CHR 0x5C, CHR ''b'']
      else if c = CHR 0x09 then [CHR 0x5C, CHR ''t'']
      else if c = CHR 0x0A then [CHR 0x5C, CHR ''n'']
      else if c = CHR 0x0C then [CHR 0x5C, CHR ''f'']
      else if c = CHR 0x0D then [CHR 0x5C, CHR ''r'']
      else if of_char c < (32::nat)
        then [CHR 0x5C, CHR ''u'', CHR ''0'', CHR ''0'',
              hex_digit (of_char c div 16), hex_digit (of_char c)]
      else [c])"

definition json_quote :: "string \<Rightarrow> string" where
  "json_quote s = [CHR 0x22] @ concat (map json_escape s) @ [CHR 0x22]"

text \<open>
  The first step of \<open>JSON.stringify\<close> on a value, at the top and at every property and
  element: an object with a callable \<open>toJSON\<close> is replaced by what that method returns.
\<close>

definition toJSON_result :: "jsval \<Rightarrow> jsval" where
  "toJSON_result v =
     (case v of
        JObj kvs \<Rightarrow> (case map_of kvs ''toJSON'' of Some (JFun src r) \<Rightarrow> r | _ \<Rightarrow> v)
      | _ \<Rightarrow> v)"

text \<open>
  \<open>JSON.stringify(v)\<close>: \<open>undefined\<close> (\<open>None\<close>) for \<open>undefined\<close> and for a function, a
  \<open>TypeError\<close> for a \<open>bigint\<close> anywhere in the value, \<open>null\<close> for a number that is not
  finite; in an array \<open>undefined\<close> and a function are written \<open>null\<close>, in an object a
  property with such a value is left out.
\<close>

function JSON_stringify :: "(double \<Rightarrow> string) \<Rightarrow> jsval \<Rightarrow> exn + string option" where
  "JSON_stringify N v =
     (case toJSON_result v of
        JUndefined \<Rightarrow> Inr None
      | JFun src r \<Rightarrow> Inr None
      | JNull \<Rightarrow> Inr (Some ''null'')
      | JBool b \<Rightarrow> Inr (Some (if b then ''true'' else ''false''))
      | JNum x \<Rightarrow> Inr (Some (if Number_isFinite x then N x else ''null''))
      | JBigInt n \<Rightarrow> Inl TypeError
      | JStr s \<Rightarrow> Inr (Some (json_quote s))
      | JArr xs \<Rightarrow>
          (case sequence (map (JSON_stringify N) xs) of
             Inl e \<Rightarrow> Inl e
           | Inr rs \<Rightarrow>
               Inr (Some (''['' @ join '','' (map (\<lambda>r. case r of None \<Rightarrow> ''null'' | Some s \<Rightarrow> s) rs)
                          @ '']'')))
      | JObj kvs \<Rightarrow>
          (case sequence (map (\<lambda>kv. case JSON_stringify N (snd kv) of
                                        Inl e \<Rightarrow> Inl e | Inr r \<Rightarrow> Inr (fst kv, r)) kvs) of
             Inl e \<Rightarrow> Inl e
           | Inr rs \<Rightarrow>
               Inr (Some (''{'' @ join '',''
                             (concat (map (\<lambda>kr. case snd kr of
                                                   None \<Rightarrow> []
                                                 | Some s \<Rightarrow> [json_quote (fst kr) @ '':'' @ s]) rs))
                          @ ''}''))))"
  by pat_completeness auto
termination
proof -
  have looked: "size u < Suc (size_list (size_prod (\<lambda>x. 0) size) kvs)"
    if "map_of kvs k = Some u" for kvs :: "(string \<times> jsval) list" and k u
    using that by (induction kvs) (auto split: if_splits)
  have result: "size (toJSON_result v) \<le> size v" for v
    unfolding toJSON_result_def
    by (auto split: jsval.splits option.splits dest!: looked)
  have element: "size x < Suc (size_list size xs)"
    if "x \<in> set xs" for x :: jsval and xs
    using that by (induction xs) auto
  have property: "size (snd kv) < Suc (size_list (size_prod (\<lambda>x. 0) size) kvs)"
    if "kv \<in> set kvs" for kv :: "string \<times> jsval" and kvs
    using that by (induction kvs) auto
  show ?thesis
  proof (relation "measure (\<lambda>p. size (snd p))")
    show "wf (measure (\<lambda>p. size (snd p)))" by simp
  next
    fix N :: "double \<Rightarrow> string" and v xs x
    assume "toJSON_result v = JArr xs" and "x \<in> set xs"
    then have "size x < size (toJSON_result v)"
      using element [of x xs] by simp
    with result [of v] show "((N, x), (N, v)) \<in> measure (\<lambda>p. size (snd p))"
      by simp
  next
    fix N :: "double \<Rightarrow> string" and v kvs kv
    assume "toJSON_result v = JObj kvs" and "kv \<in> set kvs"
    then have "size (snd kv) < size (toJSON_result v)"
      using property [of kv kvs] by simp
    with result [of v] show "((N, snd kv), (N, v)) \<in> measure (\<lambda>p. size (snd p))"
      by simp
  qed
qed

declare JSON_stringify.simps [simp del]

text \<open>
  \<open>err?.toString?.()\<close>: \<open>undefined\<close> for \<open>undefined\<close> and \<open>null\<close>; for an object with an
  own property \<open>toString\<close>, \<open>undefined\<close> when that property is \<open>undefined\<close> or \<open>null\<close>, what
  it returns when it is a function, and a \<open>TypeError\<close> otherwise; for every other value the
  string its prototype's \<open>toString\<close> gives.
\<close>

fun call_toString :: "(double \<Rightarrow> string) \<Rightarrow> jsval \<Rightarrow> exn + jsval" where
  "call_toString N JUndefined = Inr JUndefined"
| "call_toString N JNull = Inr JUndefined"
| "call_toString N (JObj kvs) =
     (case map_of kvs ''toString'' of
        None \<Rightarrow> Inr (JStr ''[object Object]'')
      | Some f \<Rightarrow>
          (case f of
             JUndefined \<Rightarrow> Inr JUndefined
           | JNull \<Rightarrow> Inr JUndefined
           | JFun src r \<Rightarrow> Inr r
           | _ \<Rightarrow> Inl TypeError))"
| "call_toString N v = (case ToString N v of Inl e \<Rightarrow> Inl e | Inr s \<Rightarrow> Inr (JStr s))"

text \<open>
  A sample \<open>Number::toString\<close>: the decimal digits of a whole number of a magnitude below
  \<open>10^21\<close>, the names of \<open>NaN\<close> and the infinities, and the empty text for the other numbers.
\<close>

definition whole_text :: "double \<Rightarrow> string" where
  "whole_text x =
     (case x of
        Fin a \<Rightarrow> if \<bar>a\<bar> < 10 ^ 21 \<and> a = of_int \<lfloor>a\<rfloor> then String_of_int \<lfloor>a\<rfloor> else []
      | PosInf \<Rightarrow> ''Infinity''
      | NegInf \<Rightarrow> ''-Infinity''
      | NaN \<Rightarrow> ''NaN'')"

section \<open>errorToText\<close>

definition msg_unknown_error :: string where
  "msg_unknown_error =
     [CHR 0xD8, CHR 0xAE, CHR 0xD8, CHR 0xB7, CHR 0xD8, CHR 0xA7, CHR 0xDB, CHR 0x8C,
      CHR 0x20, CHR 0xD9, CHR 0x86, CHR 0xD8, CHR 0xA7, CHR 0xD9, CHR 0x85, CHR 0xD8,
      CHR 0xB4, CHR 0xD8, CHR 0xAE, CHR 0xD8, CHR 0xB5, CHR 0x2E, CHR 0x20, CHR 0xD9,
      CHR 0x84, CHR 0xD8, CHR 0xB7, CHR 0xD9, CHR 0x81, CHR 0xD8, CHR 0xA7, CHR 0xD9,
      CHR 0x8B, CHR 0x20, CHR 0xD8, CHR 0xAF, CHR 0xD9, CHR 0x88, CHR 0xD8, CHR 0xA8,
      CHR 0xD8, CHR 0xA7, CHR 0xD8, CHR 0xB1, CHR 0xD9, CHR 0x87, CHR 0x20, CHR 0xD8,
      CHR 0xAA, CHR 0xD9, CHR 0x84, CHR 0xD8, CHR 0xA7, CHR 0xD8, CHR 0xB4, CHR 0x20,
      CHR 0xDA, CHR 0xA9, CHR 0xD9, CHR 0x86, CHR 0xDB, CHR 0x8C, CHR 0xD8, CHR 0xAF,
      CHR 0x2E]"

text \<open>\<open>err?.response?.data\<close>.\<close>

definition response_data :: "jsval \<Rightarrow> jsval" where
  "response_data e = opt_prop (opt_prop e ''response'') ''data''"

text \<open>One turn of the loop over \<open>Object.keys(errors)\<close>: the line pushed for the key \<open>k\<close> with the value \<open>v\<close>.\<close>

definition error_line :: "(double \<Rightarrow> string) \<Rightarrow> string \<times> jsval \<Rightarrow> exn + string" where
  "error_line N kv =
     (case snd kv of
        JArr xs \<Rightarrow>
          (case array_join N '' | '' xs of Inl e \<Rightarrow> Inl e | Inr s \<Rightarrow> Inr (fst kv @ '': '' @ s))
      | JStr s \<Rightarrow> Inr (fst kv @ '': '' @ s)
      | v \<Rightarrow>
          (case JSON_stringify N v of
             Inl e \<Rightarrow> Inl e
           | Inr r \<Rightarrow> Inr (fst kv @ '': '' @ (case r of None \<Rightarrow> ''undefined'' | Some s \<Rightarrow> s))))"

text \<open>The branch for a body that is an object: \<open>ProblemDetails\<close> and \<open>ValidationProblemDetails\<close>.\<close>

definition problem_text :: "(double \<Rightarrow> string) \<Rightarrow> jsval \<Rightarrow> exn + string option" where
  "problem_text N data =
     (let title = js_or (get_prop data ''title'') (get_prop data ''Title'');
          detail = js_or (get_prop data ''detail'') (get_prop data ''Detail'');
          errors = js_or (get_prop data ''errors'') (get_prop data ''Errors'')
      in if truthy errors \<and> (case errors of JObj _ \<Rightarrow> True | JArr _ \<Rightarrow> True | _ \<Rightarrow> False) then
           (case sequence (map (error_line N) (own_entries errors)) of
              Inl e \<Rightarrow> Inl e
            | Inr parts \<Rightarrow>
                (case array_join N [CHR 0x0A]
                        (filter truthy [title, detail, JStr (join [CHR 0x0A] parts)]) of
                   Inl e \<Rightarrow> Inl e
                 | Inr s \<Rightarrow> Inr (Some s)))
         else
           (case array_join N [CHR 0x0A] (filter truthy [title, detail]) of
              Inl e \<Rightarrow> Inl e
            | Inr msg \<Rightarrow> if msg \<noteq> [] then Inr (Some msg) else JSON_stringify N data))"

text \<open>The last branch: \<open>err?.message || err?.toString?.() || "..."\<close>, then \<open>String(msg)\<close>.\<close>

definition fallback_text :: "(double \<Rightarrow> string) \<Rightarrow> jsval \<Rightarrow> exn + string option" where
  "fallback_text N e =
     (let message = opt_prop e ''message''
      in if truthy message then
           (case ToString N message of Inl x \<Rightarrow> Inl x | Inr s \<Rightarrow> Inr (Some s))
         else
           (case call_toString N e of
              Inl x \<Rightarrow> Inl x
            | Inr t \<Rightarrow>
                if truthy t then (case ToString N t of Inl x \<Rightarrow> Inl x | Inr s \<Rightarrow> Inr (Some s))
                else Inr (Some msg_unknown_error)))"

text \<open>
  The body of the \<open>try\<close>. The result is \<open>None\<close> when the function would return
  \<open>undefined\<close>, which only \<open>JSON.stringify\<close> can give.
\<close>

definition errorToText_try :: "(double \<Rightarrow> string) \<Rightarrow> jsval \<Rightarrow> exn + string option" where
  "errorToText_try N e =
     (case response_data e of
        JStr s \<Rightarrow> Inr (Some s)
      | JArr xs \<Rightarrow>
          (case sequence (map (\<lambda>x. case x of
                                      JStr s \<Rightarrow> Inr (JStr s)
                                    | _ \<Rightarrow> (case JSON_stringify N x of
                                              Inl ex \<Rightarrow> Inl ex
                                            | Inr None \<Rightarrow> Inr JUndefined
                                            | Inr (Some s) \<Rightarrow> Inr (JStr s))) xs) of
             Inl ex \<Rightarrow> Inl ex
           | Inr ys \<Rightarrow>
               (case array_join N [CHR 0x0A] ys of Inl ex \<Rightarrow> Inl ex | Inr s \<Rightarrow> Inr (Some s)))
      | JObj kvs \<Rightarrow> problem_text N (JObj kvs)
      | _ \<Rightarrow> fallback_text N e)"

text \<open>\<open>errorToText\<close>: the \<open>try\<close>, and the fixed text of the \<open>catch\<close> when it raises.\<close>

definition errorToText :: "(double \<Rightarrow> string) \<Rightarrow> jsval \<Rightarrow> string option" where
  "errorToText N e = (case errorToText_try N e of Inl ex \<Rightarrow> Some msg_unknown_error | Inr r \<Rightarrow> r)"






section \<open>The realtime connection: runs of operations\<close>

text \<open>
  \<open>stopSignalR\<close>: nothing when \<open>connection\<close> is \<open>null\<close>; otherwise the object is stopped,
  which leaves it \<open>Disconnected\<close> and ends its transport connection, and \<open>connection\<close>
  becomes \<open>null\<close>.
\<close>

definition stopSignalR :: "signalr \<Rightarrow> signalr" where
  "stopSignalR w =
     (case connection w of
        None \<Rightarrow> w
      | Some c \<Rightarrow>
          w\<lparr>connection := None, hubs := (hubs w)(c \<mapsto> Disconnected),
            groups := filter (\<lambda>g. fst g \<noteq> c) (groups w)\<rparr>)"

text \<open>
  The steps by which the state of the module changes: a call of one of its functions (for
  \<open>startSignalR\<close> also its two parts, so that calls may overlap), the settling of a
  \<open>start()\<close>, and the transport losing and regaining its connection.
\<close>

datatype sr_step =
  CallStart bool
| StartBegin
| StartSettled nat bool
| CallJoin int bool
| CallLeave int bool
| CallStop
| TransportReconnecting nat
| TransportReconnected nat

fun sr_apply :: "sr_step \<Rightarrow> signalr \<Rightarrow> signalr" where
  "sr_apply (CallStart ok) w = snd (startSignalR ok w)"
| "sr_apply StartBegin w = snd (startSignalR_begin w)"
| "sr_apply (StartSettled h ok) w = start_settled h ok w"
| "sr_apply (CallJoin uid ok) w = snd (joinProfile uid ok w)"
| "sr_apply (CallLeave uid ok) w = snd (leaveProfile uid ok w)"
| "sr_apply CallStop w = stopSignalR w"
| "sr_apply (TransportReconnecting h) w = reconnecting h w"
| "sr_apply (TransportReconnected h) w = reconnected h w"

definition sr_run :: "sr_step list \<Rightarrow> signalr \<Rightarrow> signalr" where
  "sr_run steps w = foldl (\<lambda>v s. sr_apply s v) w steps"

text \<open>Whether a step is a call of \<open>joinProfile\<close> for the topic.\<close>

fun joins_topic :: "string \<Rightarrow> sr_step \<Rightarrow> bool" where
  "joins_topic t (CallJoin uid ok) = (String_of_int uid = t)"
| "joins_topic t s = False"

section \<open>Properties of the array helpers\<close>

lemma findIndex_lt: "findIndex P xs < int (length xs)"
  by (induction xs) (auto simp: Let_def)

lemma findIndex_neg_iff: "findIndex P xs < 0 \<longleftrightarrow> (\<forall>x \<in> set xs. \<not> P x)"
  by (induction xs) (auto simp: Let_def)

lemma findIndex_nth:
  "0 \<le> findIndex P xs \<Longrightarrow> P (xs ! nat (findIndex P xs))"
proof (induction xs)
  case Nil
  then show ?case by simp
next
  case (Cons x xs)
  show ?case
  proof (cases "P x")
    case True
    then show ?thesis by simp
  next
    case False
    with Cons.prems have nn: "0 \<le> findIndex P xs"
      by (auto simp: Let_def split: if_splits)
    with Cons.IH have "P (xs ! nat (findIndex P xs))" by simp
    with False nn show ?thesis
      by (simp add: Let_def nat_add_distrib)
  qed
qed

lemma splice_unshift_filter:
  assumes "0 \<le> idx \<Longrightarrow> nat idx < length xs \<and> P (xs ! nat idx)"
  shows "filter (\<lambda>x. \<not> P x) (splice_unshift idx xs) = filter (\<lambda>x. \<not> P x) xs"
proof (cases "idx > 0")
  case False
  then show ?thesis by (simp add: splice_unshift_def)
next
  case True
  with assms have lt: "nat idx < length xs" and px: "P (xs ! nat idx)" by auto
  from lt have d: "drop (nat idx) xs = xs ! nat idx # drop (Suc (nat idx)) xs"
    by (simp add: Cons_nth_drop_Suc)
  have "filter (\<lambda>x. \<not> P x) xs
        = filter (\<lambda>x. \<not> P x) (take (nat idx) xs) @ filter (\<lambda>x. \<not> P x) (drop (nat idx) xs)"
    by (metis append_take_drop_id filter_append)
  with True d px show ?thesis
    by (simp add: splice_unshift_def)
qed

lemma splice_unshift_mset: "mset (splice_unshift idx xs) = mset xs"
proof (cases "idx > 0 \<and> nat idx < length xs")
  case False
  then show ?thesis by (auto simp: splice_unshift_def split: list.splits)
next
  case True
  then have d: "drop (nat idx) xs = xs ! nat idx # drop (Suc (nat idx)) xs"
    by (simp add: Cons_nth_drop_Suc)
  have "mset xs = mset (take (nat idx) xs) + mset (drop (nat idx) xs)"
    by (metis append_take_drop_id mset_append)
  with True d show ?thesis
    by (simp add: splice_unshift_def)
qed

section \<open>Counter updates\<close>

lemma counts_of_onAdView:
  "counts_of i (onAdView i v xs) = replicate (length (counts_of i xs)) v"
  by (induction xs) (auto simp: counts_of_def onAdView_def)

lemma others_onAdView:
  "filter (\<lambda>x. ad_id x \<noteq> i) (onAdView i v xs) = filter (\<lambda>x. ad_id x \<noteq> i) xs"
  by (induction xs) (auto simp: onAdView_def)

lemma counts_of_all_eq:
  assumes "\<forall>x \<in> set ys. ad_id x = i \<longrightarrow> viewCount x = v"
    and "length (counts_of i ys) = n"
  shows "counts_of i ys = replicate n v"
proof -
  from assms(1) have "\<forall>c \<in> set (counts_of i ys). c = v"
    by (auto simp: counts_of_def)
  then have "counts_of i ys = replicate (length (counts_of i ys)) v"
    by (metis replicate_length_same)
  with assms(2) show ?thesis by (simp only:)
qed

lemma length_counts_of_mset:
  "mset ys = mset zs \<Longrightarrow> length (counts_of i ys) = length (counts_of i zs)"
proof -
  assume "mset ys = mset zs"
  then have "mset (filter (\<lambda>x. ad_id x = i) ys) = mset (filter (\<lambda>x. ad_id x = i) zs)"
    by simp
  then have "length (filter (\<lambda>x. ad_id x = i) ys) = length (filter (\<lambda>x. ad_id x = i) zs)"
    by (metis size_mset)
  then show ?thesis by (simp add: counts_of_def)
qed

lemma onAdViewUpdated_mset:
  "mset (onAdViewUpdated i v xs) = mset (onAdView i v xs)"
  by (simp add: onAdViewUpdated_def onAdView_def Let_def splice_unshift_mset)

lemma onAdView_stored:
  assumes "x \<in> set (onAdView i v xs)" and "ad_id x = i"
  shows "viewCount x = v"
proof -
  from assms(1) obtain y where "x = (if ad_id y = i then y\<lparr>viewCount := v\<rparr> else y)"
    unfolding onAdView_def set_map by (rule imageE)
  with assms(2) show ?thesis
    by (cases "ad_id y = i") simp_all
qed

lemma counts_of_onAdViewUpdated:
  "counts_of i (onAdViewUpdated i v xs) = replicate (length (counts_of i xs)) v"
proof -
  have m: "mset (onAdViewUpdated i v xs) = mset (onAdView i v xs)"
    by (rule onAdViewUpdated_mset)
  then have "set (onAdViewUpdated i v xs) = set (onAdView i v xs)"
    by (rule mset_eq_setD)
  then have a: "\<forall>x \<in> set (onAdViewUpdated i v xs). ad_id x = i \<longrightarrow> viewCount x = v"
    using onAdView_stored by blast
  have "length (counts_of i (onAdViewUpdated i v xs)) = length (counts_of i (onAdView i v xs))"
    using m by (rule length_counts_of_mset)
  also have "\<dots> = length (counts_of i xs)"
    by (simp add: counts_of_onAdView)
  finally have b: "length (counts_of i (onAdViewUpdated i v xs)) = length (counts_of i xs)" .
  from a b show ?thesis
    by (rule counts_of_all_eq)
qed

lemma others_onAdViewUpdated:
  "filter (\<lambda>x. ad_id x \<noteq> i) (onAdViewUpdated i v xs) = filter (\<lambda>x. ad_id x \<noteq> i) xs"
proof -
  let ?ys = "onAdView i v xs"
  let ?idx = "findIndex (\<lambda>x. ad_id x = i) ?ys"
  have "0 \<le> ?idx \<Longrightarrow> nat ?idx < length ?ys \<and> ad_id (?ys ! nat ?idx) = i"
    using findIndex_lt [of "\<lambda>x. ad_id x = i" ?ys] findIndex_nth [of "\<lambda>x. ad_id x = i" ?ys]
    by auto
  then have "filter (\<lambda>x. \<not> ad_id x = i) (splice_unshift ?idx ?ys) = filter (\<lambda>x. \<not> ad_id x = i) ?ys"
    by (rule splice_unshift_filter)
  then show ?thesis
    by (simp add: onAdViewUpdated_def Let_def others_onAdView) (simp add: onAdView_def)
qed

lemma onAdView_seq_snoc:
  "onAdView_seq i (vs @ [v]) xs = onAdView i v (onAdView_seq i vs xs)"
  by (simp add: onAdView_seq_def)

lemma onAdViewUpdated_seq_snoc:
  "onAdViewUpdated_seq i (vs @ [v]) xs = onAdViewUpdated i v (onAdViewUpdated_seq i vs xs)"
  by (simp add: onAdViewUpdated_seq_def)

lemma length_counts_onAdView_seq:
  "length (counts_of i (onAdView_seq i vs xs)) = length (counts_of i xs)"
  by (induction vs rule: rev_induct)
     (simp_all add: onAdView_seq_snoc counts_of_onAdView, simp add: onAdView_seq_def)

lemma length_counts_onAdViewUpdated_seq:
  "length (counts_of i (onAdViewUpdated_seq i vs xs)) = length (counts_of i xs)"
  by (induction vs rule: rev_induct)
     (simp_all add: onAdViewUpdated_seq_snoc counts_of_onAdViewUpdated, simp add: onAdViewUpdated_seq_def)

lemma others_onAdView_seq:
  "filter (\<lambda>x. ad_id x \<noteq> i) (onAdView_seq i vs xs) = filter (\<lambda>x. ad_id x \<noteq> i) xs"
  by (induction vs rule: rev_induct)
     (simp_all add: onAdView_seq_snoc others_onAdView, simp add: onAdView_seq_def)

lemma others_onAdViewUpdated_seq:
  "filter (\<lambda>x. ad_id x \<noteq> i) (onAdViewUpdated_seq i vs xs) = filter (\<lambda>x. ad_id x \<noteq> i) xs"
  by (induction vs rule: rev_induct)
     (simp_all add: onAdViewUpdated_seq_snoc others_onAdViewUpdated, simp add: onAdViewUpdated_seq_def)

text \<open>
  Claim C3 says that a counter event is applied only when its value is at least the stored
  one, so that the stored view count ends as the maximum. Neither \<open>AdViewUpdated\<close> handler
  compares: on the profile page and on the dashboard the ad with the id is delivered the
  values 7 and then 6 and ends with 6, not with the maximum 7.
\<close>

theorem counter_not_monotonic_counterexample:
  "counts_of 1 (onAdView_seq 1 [7, 6] [mk_ad 1 9 ''2024-01-01'' 5]) = [6]
   \<and> counts_of 1 (onAdViewUpdated_seq 1 [7, 6] [mk_ad 1 9 ''2024-01-01'' 5]) = [6]
   \<and> (6::int) \<noteq> max 5 (max 7 6)"
  by (simp add: counts_of_def onAdView_seq_def onAdViewUpdated_seq_def onAdView_def
      onAdViewUpdated_def splice_unshift_def mk_ad_def)


text \<open>
  C3, as the code has it: the handlers store every value, so after a non-empty sequence of
  counter events for an id every ad with that id holds the last value delivered, whatever
  it held before, and the ads with other ids are as they were, in their order.
\<close>

theorem counter_last_write_wins:
  assumes "vs \<noteq> []"
  shows "counts_of i (onAdView_seq i vs xs) = replicate (length (counts_of i xs)) (last vs)
       \<and> counts_of i (onAdViewUpdated_seq i vs xs) = replicate (length (counts_of i xs)) (last vs)
       \<and> filter (\<lambda>x. ad_id x \<noteq> i) (onAdView_seq i vs xs) = filter (\<lambda>x. ad_id x \<noteq> i) xs
       \<and> filter (\<lambda>x. ad_id x \<noteq> i) (onAdViewUpdated_seq i vs xs) = filter (\<lambda>x. ad_id x \<noteq> i) xs"
proof -
  from assms obtain ws v where vs: "vs = ws @ [v]"
    by (metis rev_exhaust)
  have "counts_of i (onAdView_seq i vs xs) = replicate (length (counts_of i xs)) (last vs)"
    by (simp add: vs onAdView_seq_snoc counts_of_onAdView length_counts_onAdView_seq)
  moreover have "counts_of i (onAdViewUpdated_seq i vs xs) = replicate (length (counts_of i xs)) (last vs)"
    by (simp add: vs onAdViewUpdated_seq_snoc counts_of_onAdViewUpdated length_counts_onAdViewUpdated_seq)
  ultimately show ?thesis
    by (simp add: others_onAdView_seq others_onAdViewUpdated_seq)
qed



theorem counter_last_write_wins_witness:
  "[7, 6] \<noteq> ([]::int list)
   \<and> counts_of 1 (onAdView_seq 1 [7, 6] [mk_ad 1 9 ''2024-01-01'' 5, mk_ad 2 9 ''2024-01-02'' 3]) = [6]
   \<and> counts_of 1 (onAdViewUpdated_seq 1 [7, 6] [mk_ad 2 9 ''2024-01-02'' 3, mk_ad 1 9 ''2024-01-01'' 5]) = [6]"
  using counter_last_write_wins [of "[7, 6]" 1 "[mk_ad 1 9 ''2024-01-01'' 5, mk_ad 2 9 ''2024-01-02'' 3]"]
        counter_last_write_wins [of "[7, 6]" 1 "[mk_ad 2 9 ''2024-01-02'' 3, mk_ad 1 9 ''2024-01-01'' 5]"]
  by (simp add: counts_of_def mk_ad_def)

section \<open>Create events\<close>

text \<open>
  The profile page's \<open>CarAdCreated\<close> handler and the home page's \<open>TelegramMessageReceived\<close>
  handler look for the id first: a second delivery changes nothing, and one entry holds the id.
\<close>

lemma onAdCreated_idem:
  "onAdCreated profileId p (onAdCreated profileId p prev) = onAdCreated profileId p prev"
  by (simp add: onAdCreated_def)

lemma onAdCreated_one_entry:
  assumes "userId p = profileId" and "\<not> list_ex (\<lambda>x. ad_id x = ad_id p) prev"
  shows "filter (\<lambda>x. ad_id x = ad_id p) (onAdCreated profileId p (onAdCreated profileId p prev)) = [p]"
proof -
  from assms(2) have "filter (\<lambda>x. ad_id x = ad_id p) prev = []"
    by (induction prev) auto
  with assms show ?thesis by (simp add: onAdCreated_def)
qed

lemma onTelegramMsg_idem:
  "onTelegramMsg msg (onTelegramMsg msg prev) = onTelegramMsg msg prev"
  by (simp add: onTelegramMsg_def)

lemma onTelegramMsg_one_entry:
  assumes "\<not> list_ex (\<lambda>m. tg_id m = tg_id msg) prev"
  shows "filter (\<lambda>m. tg_id m = tg_id msg) (onTelegramMsg msg (onTelegramMsg msg prev)) = [msg]"
proof -
  from assms have "filter (\<lambda>m. tg_id m = tg_id msg) prev = []"
    by (induction prev) auto
  with assms show ?thesis by (simp add: onTelegramMsg_def)
qed

text \<open>
  Claim C4 says that every create handler is idempotent. The dashboard's
  \<open>CarAdCreatedForUser\<close> handler prepends without looking for the id: the same ad delivered
  twice to an empty collection gives two entries for its id, where the first delivery gave one.
\<close>

theorem onCarAdCreatedForUser_twice:
  "onCarAdCreatedForUser (mk_ad 1 9 ''2024-01-01'' 0)
     (onCarAdCreatedForUser (mk_ad 1 9 ''2024-01-01'' 0) [])
   = [mk_ad 1 9 ''2024-01-01'' 0, mk_ad 1 9 ''2024-01-01'' 0]
   \<and> onCarAdCreatedForUser (mk_ad 1 9 ''2024-01-01'' 0) [] = [mk_ad 1 9 ''2024-01-01'' 0]"
  by (simp add: onCarAdCreatedForUser_def)

section \<open>Failed refresh\<close>

text \<open>
  Claim C6 says that a bulk fetch that rejects leaves every collection as it was.
  \<open>BioManager.load\<close> calls \<open>setItems([])\<close> in its \<open>catch\<close>: a manager holding one entry
  holds none after a failed load.
\<close>

theorem bio_load_failure_counterexample:
  "items (load_settle (\<lambda>r. r) (Failed None)
            (load_begin \<lparr>items = [mk_bio 1 9], bm_loading = False, toasts = []\<rparr>)) = []
   \<and> [mk_bio 1 9] \<noteq> []"
  by (simp add: load_settle_def load_begin_def)

text \<open>
  C6, as the code has it: when the requests of \<open>loadAll\<close> reject, the ads, the biography
  and the user of the profile page are as before and the error text is set; the same holds for
  the ads when only the ads body is missing; when the request of the dashboard's \<open>loadAds\<close>
  rejects, its ads are as before and the error text is set; when the request of
  \<open>BioManager.load\<close> rejects, its items are emptied and one toast is raised.
\<close>

theorem failed_refresh:
  "allAds (loadAll_settle profileId h (Rejected d) (loadAll_begin s)) = allAds s
   \<and> bio (loadAll_settle profileId h (Rejected d) (loadAll_begin s)) = bio s
   \<and> user (loadAll_settle profileId h (Rejected d) (loadAll_begin s)) = user s
   \<and> err (loadAll_settle profileId h (Rejected d) (loadAll_begin s))
       = Some (nullish d msg_loadAll_failed)
   \<and> allAds (loadAll_settle profileId h (Fulfilled u b None) (loadAll_begin s)) = allAds s
   \<and> d_ads (loadAds_settle (Failed d) (loadAds_begin t)) = d_ads t
   \<and> d_err (loadAds_settle (Failed d) (loadAds_begin t)) = Some (nullish d msg_loadAds_failed)
   \<and> items (load_settle n (Failed d) (load_begin b0)) = []
   \<and> toasts (load_settle n (Failed d) (load_begin b0))
       = toasts b0 @ [(msg_bio_failed, nullish d msg_retry)]"
  by (simp add: loadAll_settle_def loadAll_begin_def loadAds_settle_def loadAds_begin_def
      load_settle_def load_begin_def)

section \<open>Order of the ads on the profile page\<close>

lemma insert_by_mset: "mset (insert_by cmp x ys) = {#x#} + mset ys"
  by (induction ys) auto

lemma js_sort_snoc: "js_sort cmp (xs @ [x]) = insert_by cmp x (js_sort cmp xs)"
  by (simp add: js_sort_def)

lemma js_sort_mset: "mset (js_sort cmp xs) = mset xs"
  by (induction xs rule: rev_induct) (simp_all add: js_sort_snoc insert_by_mset, simp add: js_sort_def)

lemma insert_by_set: "set (insert_by cmp x ys) = insert x (set ys)"
  by (induction ys) auto

lemma insert_by_ad_cmp_sorted:
  "sorted_wrt (\<lambda>a b. createdAt b \<le> createdAt a) ys
   \<Longrightarrow> sorted_wrt (\<lambda>a b. createdAt b \<le> createdAt a) (insert_by ad_cmp x ys)"
proof (induction ys)
  case Nil
  then show ?case by simp
next
  case (Cons y ys)
  show ?case
  proof (cases "ad_cmp x y < 0")
    case True
    then have "createdAt y < createdAt x"
      by (simp add: ad_cmp_def split: if_splits)
    with Cons.prems show ?thesis
      using True by (auto intro: order_trans less_imp_le)
  next
    case False
    then have "createdAt x \<le> createdAt y"
      by (simp add: ad_cmp_def split: if_splits)
    with Cons show ?thesis
      using False by (auto simp: insert_by_set)
  qed
qed

lemma js_sort_ad_cmp_sorted:
  "sorted_wrt (\<lambda>a b. createdAt b \<le> createdAt a) (js_sort ad_cmp xs)"
  by (induction xs rule: rev_induct)
     (simp_all add: js_sort_snoc insert_by_ad_cmp_sorted, simp add: js_sort_def)

lemma findIndex_in_range:
  "0 \<le> findIndex P xs \<Longrightarrow> nat (findIndex P xs) < length xs \<and> P (xs ! nat (findIndex P xs))"
  using findIndex_lt [of P xs] findIndex_nth [of P xs] by auto

lemma highlight_others:
  "filter (\<lambda>a. ad_id a \<noteq> k) (splice_unshift (findIndex (\<lambda>a. ad_id a = k) xs) xs)
   = filter (\<lambda>a. ad_id a \<noteq> k) xs"
proof -
  have "filter (\<lambda>a. \<not> ad_id a = k) (splice_unshift (findIndex (\<lambda>a. ad_id a = k) xs) xs)
   = filter (\<lambda>a. \<not> ad_id a = k) xs"
    by (rule splice_unshift_filter) (rule findIndex_in_range)
  then show ?thesis by simp
qed

lemma highlight_head:
  assumes "a \<in> set xs" and "ad_id a = k"
  shows "\<exists>y ys. splice_unshift (findIndex (\<lambda>a. ad_id a = k) xs) xs = y # ys \<and> ad_id y = k"
proof -
  let ?P = "\<lambda>a. ad_id a = k"
  let ?i = "findIndex ?P xs"
  from assms have nn: "0 \<le> ?i"
    using findIndex_neg_iff [of ?P xs] by fastforce
  then have rng: "nat ?i < length xs" and at: "ad_id (xs ! nat ?i) = k"
    using findIndex_in_range [of ?P xs] by auto
  show ?thesis
  proof (cases "?i > 0")
    case True
    from rng have "drop (nat ?i) xs = xs ! nat ?i # drop (Suc (nat ?i)) xs"
      by (simp add: Cons_nth_drop_Suc)
    with True at show ?thesis
      by (simp add: splice_unshift_def)
  next
    case False
    with nn have z: "?i = 0" by simp
    with rng obtain y ys where xs: "xs = y # ys"
      by (cases xs) auto
    with at z have "ad_id y = k" by simp
    with False xs show ?thesis
      by (simp add: splice_unshift_def)
  qed
qed

lemma findIndex_find:
  "0 \<le> findIndex P xs \<Longrightarrow>
   \<exists>y rest. List.find P xs = Some y \<and> drop (nat (findIndex P xs)) xs = y # rest
            \<and> remove1 y xs = take (nat (findIndex P xs)) xs @ rest"
proof (induction xs)
  case Nil
  then show ?case by simp
next
  case (Cons x xs)
  show ?case
  proof (cases "P x")
    case True
    then show ?thesis by simp
  next
    case False
    with Cons.prems have nn: "0 \<le> findIndex P xs"
      by (auto simp: Let_def split: if_splits)
    with Cons.IH obtain y rest where y: "List.find P xs = Some y"
      and d: "drop (nat (findIndex P xs)) xs = y # rest"
      and r: "remove1 y xs = take (nat (findIndex P xs)) xs @ rest"
      by blast
    from y have "P y" by (auto simp: find_Some_iff)
    with False have ne: "x \<noteq> y" by auto
    from nn have n: "nat (findIndex P xs + 1) = Suc (nat (findIndex P xs))" by simp
    from False nn y d r ne show ?thesis
      by (simp add: Let_def n)
  qed
qed

lemma splice_unshift_find:
  "splice_unshift (findIndex P xs) xs
   = (case List.find P xs of None \<Rightarrow> xs | Some y \<Rightarrow> y # remove1 y xs)"
proof (cases "0 \<le> findIndex P xs")
  case False
  then have "findIndex P xs < 0" by simp
  then have "\<forall>x \<in> set xs. \<not> P x" by (simp add: findIndex_neg_iff)
  then have "List.find P xs = None" by (simp add: find_None_iff)
  with False show ?thesis by (simp add: splice_unshift_def)
next
  case True
  then obtain y rest where y: "List.find P xs = Some y"
      and d: "drop (nat (findIndex P xs)) xs = y # rest"
      and r: "remove1 y xs = take (nat (findIndex P xs)) xs @ rest"
    using findIndex_find by blast
  show ?thesis
  proof (cases "findIndex P xs > 0")
    case True
    with y d r show ?thesis by (simp add: splice_unshift_def)
  next
    case False
    with True have z: "findIndex P xs = 0" by simp
    with d have "xs = y # rest" by simp
    with y z show ?thesis by (simp add: splice_unshift_def)
  qed
qed

text \<open>
  Claim C7 says that the ads are shown newest first and that a highlight id moves its ad to
  the front of that order, the others staying as they are. \<open>loadAll\<close> sorts in the
  \<open>else\<close> branch only: with a highlight id the fetched list is not sorted. For ads fetched
  in the order 4, 1, 3, 2, of which 1 is the newest and 4 the oldest, the highlight id 2
  gives 2, 4, 1, 3, where the newest-first order with 2 moved to the front is 2, 1, 3, 4.
\<close>

theorem highlight_not_sorted_counterexample:
  "map ad_id (arrange_ads (Some 2) [mk_ad 4 9 ''2024-01-01'' 0, mk_ad 1 9 ''2024-01-04'' 0,
                                     mk_ad 3 9 ''2024-01-02'' 0, mk_ad 2 9 ''2024-01-03'' 0])
     = [2, 4, 1, 3]
   \<and> map ad_id (arrange_ads None [mk_ad 4 9 ''2024-01-01'' 0, mk_ad 1 9 ''2024-01-04'' 0,
                                   mk_ad 3 9 ''2024-01-02'' 0, mk_ad 2 9 ''2024-01-03'' 0])
     = [1, 2, 3, 4]
   \<and> [2, 4, 1, 3] \<noteq> [2, 1, 3, (4::int)]"
  by (simp add: arrange_ads_def splice_unshift_def mk_ad_def js_sort_def ad_cmp_def)

text \<open>
  C7, as the code has it: with no highlight id (\<open>null\<close>, which a parameter of 0 also gives)
  the ads that \<open>loadAll\<close> installs are the fetched ads of the profile sorted by their
  \<open>createdAt\<close> strings, the greater string first. With a highlight id \<open>k\<close> nothing is
  sorted: the first fetched ad with the id \<open>k\<close> is put in front of the fetched list with
  that ad removed, and a list with no such ad is left as fetched; so the ads other than
  those with id \<open>k\<close> are in their fetched order and, when an ad with id \<open>k\<close> was fetched,
  the first ad of the result has id \<open>k\<close>. In both cases the result holds the fetched ads,
  each as often as fetched.
\<close>

theorem arrange_ads_order:
  "arrange_ads None xs = js_sort ad_cmp xs
   \<and> sorted_wrt (\<lambda>a b. createdAt b \<le> createdAt a) (arrange_ads None xs)
   \<and> mset (arrange_ads h xs) = mset xs
   \<and> arrange_ads (highlightAdId_of (Some 0)) xs = arrange_ads None xs
   \<and> (k \<noteq> 0 \<longrightarrow>
        arrange_ads (Some k) xs
          = (case List.find (\<lambda>a. ad_id a = k) xs of None \<Rightarrow> xs | Some y \<Rightarrow> y # remove1 y xs)
        \<and> filter (\<lambda>a. ad_id a \<noteq> k) (arrange_ads (Some k) xs) = filter (\<lambda>a. ad_id a \<noteq> k) xs
        \<and> ((\<exists>a \<in> set xs. ad_id a = k) \<longrightarrow>
             (\<exists>y ys. arrange_ads (Some k) xs = y # ys \<and> ad_id y = k)))"
proof -
  have 0: "arrange_ads None xs = js_sort ad_cmp xs"
    by (simp add: arrange_ads_def)
  have 1: "sorted_wrt (\<lambda>a b. createdAt b \<le> createdAt a) (arrange_ads None xs)"
    by (simp add: arrange_ads_def js_sort_ad_cmp_sorted)
  have 2: "mset (arrange_ads h xs) = mset xs"
    by (simp add: arrange_ads_def js_sort_mset splice_unshift_mset split: option.splits)
  have 3: "arrange_ads (highlightAdId_of (Some 0)) xs = arrange_ads None xs"
    by (simp add: highlightAdId_of_def)
  have 4: "filter (\<lambda>a. ad_id a \<noteq> k) (arrange_ads (Some k) xs) = filter (\<lambda>a. ad_id a \<noteq> k) xs"
    if "k \<noteq> 0"
    using that by (simp add: arrange_ads_def highlight_others)
  have 5: "\<exists>y ys. arrange_ads (Some k) xs = y # ys \<and> ad_id y = k"
    if "k \<noteq> 0" and "\<exists>a \<in> set xs. ad_id a = k"
    using that highlight_head [of _ xs k] by (auto simp: arrange_ads_def)
  have 6: "arrange_ads (Some k) xs
          = (case List.find (\<lambda>a. ad_id a = k) xs of None \<Rightarrow> xs | Some y \<Rightarrow> y # remove1 y xs)"
    if "k \<noteq> 0"
    using that by (simp add: arrange_ads_def splice_unshift_find)
  from 0 1 2 3 4 5 6 show ?thesis by blast
qed

theorem arrange_ads_order_witness:
  "(2::int) \<noteq> 0
   \<and> (\<exists>a \<in> set [mk_ad 1 9 ''2024-01-04'' 0, mk_ad 2 9 ''2024-01-03'' 0,
                    mk_ad 3 9 ''2024-01-02'' 0, mk_ad 4 9 ''2024-01-01'' 0]. ad_id a = 2)
   \<and> arrange_ads (Some 2) [mk_ad 1 9 ''2024-01-04'' 0, mk_ad 2 9 ''2024-01-03'' 0,
                            mk_ad 3 9 ''2024-01-02'' 0, mk_ad 4 9 ''2024-01-01'' 0]
      = [mk_ad 2 9 ''2024-01-03'' 0, mk_ad 1 9 ''2024-01-04'' 0,
         mk_ad 3 9 ''2024-01-02'' 0, mk_ad 4 9 ''2024-01-01'' 0]
   \<and> filter (\<lambda>a. ad_id a \<noteq> 2)
        (arrange_ads (Some 2) [mk_ad 1 9 ''2024-01-04'' 0, mk_ad 2 9 ''2024-01-03'' 0,
                               mk_ad 3 9 ''2024-01-02'' 0, mk_ad 4 9 ''2024-01-01'' 0])
      = [mk_ad 1 9 ''2024-01-04'' 0, mk_ad 3 9 ''2024-01-02'' 0, mk_ad 4 9 ''2024-01-01'' 0]
   \<and> map ad_id (arrange_ads None [mk_ad 4 9 ''2024-01-01'' 0, mk_ad 1 9 ''2024-01-04'' 0,
                                   mk_ad 3 9 ''2024-01-02'' 0, mk_ad 2 9 ''2024-01-03'' 0])
      = [1, 2, 3, 4]
   \<and> map ad_id (arrange_ads (Some 3) [mk_ad 4 9 ''2024-01-01'' 0, mk_ad 1 9 ''2024-01-04'' 0,
                                       mk_ad 3 9 ''2024-01-02'' 0, mk_ad 2 9 ''2024-01-03'' 0])
      = [3, 4, 1, 2]
   \<and> map ad_id (arrange_ads (Some 5) [mk_ad 4 9 ''2024-01-01'' 0, mk_ad 1 9 ''2024-01-04'' 0])
      = [4, 1]"
  using arrange_ads_order [of "[mk_ad 1 9 ''2024-01-04'' 0, mk_ad 2 9 ''2024-01-03'' 0,
                    mk_ad 3 9 ''2024-01-02'' 0, mk_ad 4 9 ''2024-01-01'' 0]" "Some 2" 2]
  by (simp add: arrange_ads_def splice_unshift_def mk_ad_def js_sort_def ad_cmp_def)

section \<open>Snapshot and events on the profile page\<close>

lemma deliver_fields:
  "user (deliver profileId e s) = user s"
  "err (deliver profileId e s) = err s"
  "loading (deliver profileId e s) = loading s"
  by (cases e; simp)+

lemma deliver_all_fields:
  "user (deliver_all profileId es s) = user s
   \<and> err (deliver_all profileId es s) = err s
   \<and> loading (deliver_all profileId es s) = loading s"
proof (induction es arbitrary: s)
  case Nil
  show ?case by (simp add: deliver_all_def)
next
  case (Cons e es)
  have "deliver_all profileId (e # es) s = deliver_all profileId es (deliver profileId e s)"
    by (simp add: deliver_all_def)
  with Cons [of "deliver profileId e s"] show ?case
    by (simp add: deliver_fields)
qed

text \<open>
  Claim C2 says that an event delivered before the snapshot is installed is buffered and
  replayed after it. The handlers run at once and nothing is buffered: the ad 3 created while
  the fetch is in flight is in the collection before the snapshot, and the snapshot of the
  ads 1 and 2 then replaces the collection, which holds 1 and 2 only.
\<close>

theorem snapshot_loses_event_counterexample:
  "map ad_id
     (allAds (loadAll_settle 9 None
        (Fulfilled (mk_user 9) (Some [])
           (Some [mk_ad 1 9 ''2024-01-02'' 0, mk_ad 2 9 ''2024-01-01'' 0]))
        (deliver_all 9 [CarAdCreated (mk_ad 3 9 ''2024-01-03'' 0)]
           (loadAll_begin profile_init)))) = [1, 2]
   \<and> map ad_id (allAds (deliver_all 9 [CarAdCreated (mk_ad 3 9 ''2024-01-03'' 0)]
           (loadAll_begin profile_init))) = [3]"
  by (simp add: loadAll_settle_def deliver_all_def loadAll_begin_def profile_init_def
      onAdCreated_def arrange_ads_def js_sort_def ad_cmp_def mk_ad_def nullish_def)

text \<open>
  C2, as the code has it: the snapshot replaces the ads and the biography wholesale. The
  state after \<open>loadAll\<close> has installed a snapshot is the same whether or not events were
  delivered before: the ads are the arranged ads of the response, the biography the sorted
  entries of the response.
\<close>

theorem snapshot_replaces_collection:
  "loadAll_settle profileId h (Fulfilled u b (Some a)) (deliver_all profileId es s)
     = loadAll_settle profileId h (Fulfilled u b (Some a)) s
   \<and> allAds (loadAll_settle profileId h (Fulfilled u b (Some a)) (deliver_all profileId es s))
     = arrange_ads h (filter (\<lambda>x. userId x = profileId) a)
   \<and> bio (loadAll_settle profileId h (Fulfilled u b (Some a)) (deliver_all profileId es s))
     = js_sort bio_cmp (nullish b [])"
proof -
  have f: "err (deliver_all profileId es s) = err s"
    using deliver_all_fields [of profileId es s] by simp
  have "loadAll_settle profileId h (Fulfilled u b (Some a)) (deliver_all profileId es s)
     = loadAll_settle profileId h (Fulfilled u b (Some a)) s"
    by (rule profile_page.equality) (simp_all add: loadAll_settle_def Let_def f)
  then show ?thesis
    by (simp add: loadAll_settle_def Let_def)
qed

section \<open>The view click on the home page\<close>






section \<open>The realtime connection: reconnects and repeated starts\<close>

lemma String_of_int_7: "String_of_int 7 = ''7''"
  by (simp add: String_of_int_def nat_digits.simps [of 7] digit_char_def)

text \<open>
  Claim C1 says that after every transport-level reconnect a \<open>JoinProfile\<close> is invoked again
  for every active topic, so that a connection that is connected again with an active topic
  not joined is never reached. The callback registered with \<open>onreconnected\<close> only logs:
  after \<open>joinProfile(7)\<close> and one reconnect the connection is \<open>Connected\<close>, the topic 7 is
  active, one \<open>JoinProfile\<close> has been invoked for it, as before the reconnect, and the
  service holds no topic for the connection.
\<close>

theorem reconnect_without_rejoin_counterexample:
  "hubs (reconnected 0 (reconnecting 0 (snd (joinProfile 7 True signalr_init)))) 0 = Some Connected
   \<and> active_topics 0 (invokes (reconnected 0 (reconnecting 0 (snd (joinProfile 7 True signalr_init)))))
       = [''7'']
   \<and> groups (snd (joinProfile 7 True signalr_init)) = [(0, ''7'')]
   \<and> groups (reconnected 0 (reconnecting 0 (snd (joinProfile 7 True signalr_init)))) = []
   \<and> join_count ''7'' (snd (joinProfile 7 True signalr_init)) = 1
   \<and> join_count ''7'' (reconnected 0 (reconnecting 0 (snd (joinProfile 7 True signalr_init)))) = 1"
  by (simp add: joinProfile_def invoke_on_def startSignalR_def startSignalR_begin_def
      start_settled_def startSignalR_resume_def invoke_def signalr_init_def String_of_int_7
      reconnecting_def reconnected_def active_topics_def topic_step_def join_count_def)

lemma startSignalR_quiet:
  "invokes (snd (startSignalR ok w)) = invokes w \<and> groups (snd (startSignalR ok w)) = groups w"
  by (simp add: startSignalR_def startSignalR_begin_def start_settled_def startSignalR_resume_def
      Let_def split: option.splits)

lemma startSignalR_begin_quiet:
  "invokes (snd (startSignalR_begin w)) = invokes w
   \<and> groups (snd (startSignalR_begin w)) = groups w"
  by (simp add: startSignalR_begin_def split: option.splits)

lemma invoke_other:
  assumes "method \<noteq> ''JoinProfile'' \<or> arg \<noteq> t"
  shows "join_count t (snd (invoke c method arg w)) = join_count t w
         \<and> ((h, t) \<notin> set (groups w) \<longrightarrow> (h, t) \<notin> set (groups (snd (invoke c method arg w))))"
  using assms by (auto simp: invoke_def join_count_def)

lemma invoke_on_other:
  assumes "method \<noteq> ''JoinProfile'' \<or> String_of_int uid \<noteq> t"
  shows "join_count t (snd (invoke_on method uid ok w)) = join_count t w
         \<and> ((h, t) \<notin> set (groups w) \<longrightarrow> (h, t) \<notin> set (groups (snd (invoke_on method uid ok w))))"
proof (cases "startSignalR ok w")
  case (Pair r w1)
  with startSignalR_quiet [of ok w]
  have q: "invokes w1 = invokes w" "groups w1 = groups w" by simp_all
  then have j: "join_count t w1 = join_count t w" by (simp add: join_count_def)
  show ?thesis
  proof (cases r)
    case (Inl e)
    with Pair q j show ?thesis by (simp add: invoke_on_def)
  next
    case (Inr c)
    with Pair q j invoke_other [OF assms, of c w1 h] show ?thesis
      by (simp add: invoke_on_def)
  qed
qed

lemma sr_apply_keeps:
  assumes "\<not> joins_topic t s"
  shows "join_count t (sr_apply s w) = join_count t w
         \<and> ((h, t) \<notin> set (groups w) \<longrightarrow> (h, t) \<notin> set (groups (sr_apply s w)))"
proof (cases s)
  case (CallStart ok)
  then show ?thesis using startSignalR_quiet [of ok w] by (simp add: join_count_def)
next
  case StartBegin
  then show ?thesis using startSignalR_begin_quiet [of w] by (simp add: join_count_def)
next
  case (StartSettled k ok)
  then show ?thesis by (simp add: start_settled_def join_count_def)
next
  case (CallJoin uid ok)
  with assms have "String_of_int uid \<noteq> t" by simp
  then have "''JoinProfile'' \<noteq> ''JoinProfile'' \<or> String_of_int uid \<noteq> t" by simp
  from invoke_on_other [OF this, of ok w h] CallJoin show ?thesis
    by (simp add: joinProfile_def)
next
  case (CallLeave uid ok)
  have "''LeaveProfile'' \<noteq> ''JoinProfile'' \<or> String_of_int uid \<noteq> t" by simp
  from invoke_on_other [OF this, of ok w h] CallLeave show ?thesis
    by (simp add: leaveProfile_def)
next
  case CallStop
  then show ?thesis by (auto simp: stopSignalR_def join_count_def split: option.splits)
next
  case (TransportReconnecting k)
  then show ?thesis by (simp add: reconnecting_def join_count_def)
next
  case (TransportReconnected k)
  then show ?thesis by (auto simp: reconnected_def join_count_def)
qed

lemma sr_run_keeps:
  assumes "\<forall>s \<in> set steps. \<not> joins_topic t s"
  shows "join_count t (sr_run steps w) = join_count t w
         \<and> ((h, t) \<notin> set (groups w) \<longrightarrow> (h, t) \<notin> set (groups (sr_run steps w)))"
  using assms
proof (induction steps arbitrary: w)
  case Nil
  show ?case by (simp add: sr_run_def)
next
  case (Cons s steps)
  have r: "sr_run (s # steps) w = sr_run steps (sr_apply s w)"
    by (simp add: sr_run_def)
  from Cons.prems have a: "\<not> joins_topic t s" and b: "\<forall>s \<in> set steps. \<not> joins_topic t s"
    by simp_all
  from Cons.IH [OF b, of "sr_apply s w"] sr_apply_keeps [OF a, of w h] show ?case
    by (simp add: r)
qed

text \<open>
  C1, as the code has it: a transport-level reconnect invokes nothing. The invokes made, and
  with them the number of \<open>JoinProfile\<close> invokes for any topic, are after the reconnect what
  they were before it, and the variable \<open>connection\<close> is unchanged; a connection that was
  \<open>Connected\<close> is \<open>Connected\<close> again, with the two callbacks' lines logged, and the
  service holds none of its topics. This lasts until \<open>joinProfile\<close> is called for the
  topic: after any further steps of the module and the transport among which there is no
  such call, the number of \<open>JoinProfile\<close> invokes for the topic is still what it was before
  the reconnect and the service still does not hold the topic for the connection.
\<close>

theorem reconnect_issues_no_invoke:
  "invokes (reconnecting h w) = invokes w
   \<and> invokes (reconnected h w) = invokes w
   \<and> join_count t (reconnected h (reconnecting h w)) = join_count t w
   \<and> connection (reconnected h (reconnecting h w)) = connection w
   \<and> (hubs w h = Some Connected \<longrightarrow>
        hubs (reconnected h (reconnecting h w)) h = Some Connected
        \<and> console (reconnected h (reconnecting h w)) = console w @ [LogReconnecting, LogReconnected]
        \<and> (h, t) \<notin> set (groups (reconnected h (reconnecting h w)))
        \<and> ((\<forall>s \<in> set steps. \<not> joins_topic t s) \<longrightarrow>
             join_count t (sr_run steps (reconnected h (reconnecting h w))) = join_count t w
             \<and> (h, t) \<notin> set (groups (sr_run steps (reconnected h (reconnecting h w))))))"
proof -
  have one: "invokes (reconnecting h w) = invokes w
   \<and> invokes (reconnected h w) = invokes w
   \<and> join_count t (reconnected h (reconnecting h w)) = join_count t w
   \<and> connection (reconnected h (reconnecting h w)) = connection w
   \<and> (hubs w h = Some Connected \<longrightarrow>
        hubs (reconnected h (reconnecting h w)) h = Some Connected
        \<and> console (reconnected h (reconnecting h w)) = console w @ [LogReconnecting, LogReconnected]
        \<and> (h, t) \<notin> set (groups (reconnected h (reconnecting h w))))"
    by (auto simp: reconnecting_def reconnected_def join_count_def)
  have later: "join_count t (sr_run steps (reconnected h (reconnecting h w))) = join_count t w
             \<and> (h, t) \<notin> set (groups (sr_run steps (reconnected h (reconnecting h w))))"
    if "hubs w h = Some Connected" and "\<forall>s \<in> set steps. \<not> joins_topic t s"
    using sr_run_keeps [OF that(2), of "reconnected h (reconnecting h w)" h] one that(1)
    by simp
  from one later show ?thesis by blast
qed


theorem reconnect_issues_no_invoke_witness:
  "hubs (snd (joinProfile 7 True signalr_init)) 0 = Some Connected
   \<and> invokes (reconnected 0 (reconnecting 0 (snd (joinProfile 7 True signalr_init))))
       = [(0, ''JoinProfile'', ''7'')]
   \<and> (0, ''7'') \<notin> set (groups (reconnected 0 (reconnecting 0 (snd (joinProfile 7 True signalr_init)))))
   \<and> join_count ''7''
        (sr_run [CallStart True, CallJoin 8 True, TransportReconnecting 0, TransportReconnected 0,
                 CallLeave 8 True]
           (reconnected 0 (reconnecting 0 (snd (joinProfile 7 True signalr_init))))) = 1
   \<and> (0, ''7'') \<notin> set (groups
        (sr_run [CallStart True, CallJoin 8 True, TransportReconnecting 0, TransportReconnected 0,
                 CallLeave 8 True]
           (reconnected 0 (reconnecting 0 (snd (joinProfile 7 True signalr_init))))))
   \<and> invokes
        (sr_run [CallStart True, CallJoin 8 True, TransportReconnecting 0, TransportReconnected 0,
                 CallLeave 8 True]
           (reconnected 0 (reconnecting 0 (snd (joinProfile 7 True signalr_init)))))
       = [(0, ''JoinProfile'', ''7''), (0, ''JoinProfile'', ''8''), (0, ''LeaveProfile'', ''8'')]"
proof -
  let ?w = "snd (joinProfile 7 True signalr_init)"
  let ?steps = "[CallStart True, CallJoin 8 True, TransportReconnecting 0, TransportReconnected 0,
                 CallLeave 8 True]"
  have c: "hubs ?w 0 = Some Connected"
    by code_simp
  have n: "\<forall>s \<in> set ?steps. \<not> joins_topic ''7'' s"
    by code_simp
  have j: "join_count ''7'' ?w = 1"
    by code_simp
  have i: "invokes (reconnected 0 (reconnecting 0 ?w)) = [(0, ''JoinProfile'', ''7'')]"
    by code_simp
  have r: "invokes (sr_run ?steps (reconnected 0 (reconnecting 0 ?w)))
       = [(0, ''JoinProfile'', ''7''), (0, ''JoinProfile'', ''8''), (0, ''LeaveProfile'', ''8'')]"
    by code_simp
  from reconnect_issues_no_invoke [of 0 ?w "''7''" ?steps] c n j i r show ?thesis
    by simp
qed

text \<open>
  Claim C5 says that \<open>startSignalR\<close>, called while an earlier call is still connecting,
  awaits that attempt and builds no second \<open>HubConnection\<close>. The guard looks for the state
  \<open>Connected\<close> only: a second call made while the first object is \<open>Connecting\<close> builds
  and starts a second object and assigns it to \<open>connection\<close>.
\<close>

theorem second_connection_counterexample:
  "fst (startSignalR_begin signalr_init) = Started 0
   \<and> hubs (snd (startSignalR_begin signalr_init)) 0 = Some Connecting
   \<and> fst (startSignalR_begin (snd (startSignalR_begin signalr_init))) = Started 1
   \<and> built (snd (startSignalR_begin (snd (startSignalR_begin signalr_init)))) = 2
   \<and> hubs (snd (startSignalR_begin (snd (startSignalR_begin signalr_init)))) 0 = Some Connecting
   \<and> hubs (snd (startSignalR_begin (snd (startSignalR_begin signalr_init)))) 1 = Some Connecting
   \<and> connection (snd (startSignalR_begin (snd (startSignalR_begin signalr_init)))) = Some 1"
  by (simp add: startSignalR_begin_def signalr_init_def)

text \<open>
  When both attempts then connect, the first call, resuming after its \<open>await\<close>, returns
  what \<open>connection\<close> refers to by then: the second object. The first object stays
  connected and is referred to by nothing.
\<close>

lemma first_call_returns_second_object:
  "fst (startSignalR_resume
          (start_settled 0 True (snd (startSignalR_begin (snd (startSignalR_begin signalr_init))))))
     = Inr 1
   \<and> hubs (start_settled 1 True
         (start_settled 0 True (snd (startSignalR_begin (snd (startSignalR_begin signalr_init))))))
        0 = Some Connected"
  by (simp add: startSignalR_resume_def start_settled_def startSignalR_begin_def signalr_init_def)

text \<open>
  C5, as the code has it: when \<open>connection\<close> refers to an object that is \<open>Connected\<close>,
  \<open>startSignalR\<close> returns that object and changes nothing; in every other case (no object,
  or an object in another state, \<open>Connecting\<close> included) it builds a new object, assigns
  it to \<open>connection\<close> and starts it.
\<close>

theorem startSignalR_guard:
  "(connection w = Some c \<and> hubs w c = Some Connected \<longrightarrow>
      startSignalR_begin w = (Existing c, w) \<and> startSignalR ok w = (Inr c, w))
   \<and> (connection w = None \<or> (connection w = Some c \<and> hubs w c \<noteq> Some Connected) \<longrightarrow>
        fst (startSignalR_begin w) = Started (built w)
        \<and> connection (snd (startSignalR_begin w)) = Some (built w)
        \<and> hubs (snd (startSignalR_begin w)) (built w) = Some Connecting
        \<and> built (snd (startSignalR_begin w)) = built w + 1)"
  by (auto simp: startSignalR_begin_def startSignalR_def)


theorem startSignalR_guard_witness:
  "startSignalR_begin (snd (startSignalR True signalr_init))
     = (Existing 0, snd (startSignalR True signalr_init))
   \<and> fst (startSignalR_begin (snd (startSignalR_begin signalr_init))) = Started 1
   \<and> built (snd (startSignalR_begin (snd (startSignalR_begin signalr_init)))) = 2"
  using startSignalR_guard [of "snd (startSignalR True signalr_init)" 0 True]
        startSignalR_guard [of "snd (startSignalR_begin signalr_init)" 0 True]
  by (simp add: startSignalR_def startSignalR_begin_def start_settled_def startSignalR_resume_def
      signalr_init_def)

section \<open>Flattening of backend errors\<close>



















lemma errorToText_catch_example:
  "errorToText_try whole_text
      (JObj [(''response'', JObj [(''data'', JArr [JStr ''a'', JBigInt 3])])])
     = Inl TypeError
   \<and> errorToText whole_text
        (JObj [(''response'', JObj [(''data'', JArr [JStr ''a'', JBigInt 3])])])
     = Some msg_unknown_error
   \<and> errorToText whole_text (JObj [(''message'', JStr ''Network Error'')]) = Some ''Network Error''
   \<and> errorToText whole_text (JObj [(''toString'', JFun ''() => 5'' (JNum (Fin 5)))]) = Some ''5''
   \<and> errorToText whole_text (JObj [(''message'', JObj [(''toString'', JNum (Fin 5))])])
     = Some msg_unknown_error
   \<and> errorToText whole_text JUndefined = Some msg_unknown_error"
  by code_simp




section \<open>The two price formatters\<close>

lemma priceToText_home_eq: "priceToText_home L v = priceToText L v"
  by (simp add: priceToText_home_def priceToText_def Let_def)

lemma str_includes_set: "str_includes s t \<Longrightarrow> set t \<subseteq> set s"
proof (induction s)
  case Nil
  then show ?case by simp
next
  case (Cons c s)
  from Cons.prems have "take (length t) (c # s) = t \<or> str_includes s t" by simp
  then show ?case
  proof
    assume "take (length t) (c # s) = t"
    then have "set t \<subseteq> set (c # s)" by (metis set_take_subset)
    then show ?thesis .
  next
    assume "str_includes s t"
    with Cons.IH show ?thesis by auto
  qed
qed

lemma str_includes_self: "str_includes t t"
  by (cases t) simp_all

lemma str_includes_suffix: "str_includes (s @ t) t"
  by (induction s) (simp_all add: str_includes_self)

lemma no_AA_fa_digit: "CHR 0xAA \<notin> set (fa_digit d)"
proof -
  let ?tab = "[CHR 0xB0, CHR 0xB1, CHR 0xB2, CHR 0xB3, CHR 0xB4,
               CHR 0xB5, CHR 0xB6, CHR 0xB7, CHR 0xB8, CHR 0xB9]"
  have "d mod 10 < length ?tab" by simp
  then have "?tab ! (d mod 10) \<in> set ?tab" by (rule nth_mem)
  moreover have "CHR 0xAA \<notin> set ?tab" by simp
  ultimately have "?tab ! (d mod 10) \<noteq> CHR 0xAA" by metis
  then show ?thesis
    by (simp add: fa_digit_def)
qed

lemma no_AA_toFa: "CHR 0xAA \<notin> set (toFa n)"
proof (induction n rule: toFa.induct)
  case (1 n)
  show ?case
  proof (cases "n < 1000")
    case True
    then show ?thesis
      by (simp add: toFa.simps [of n] fa_upto_999_def no_AA_fa_digit)
  next
    case False
    with 1 have "CHR 0xAA \<notin> set (toFa (n div 1000))" by simp
    with False show ?thesis
      by (simp add: toFa.simps [of n] fa_sep_def no_AA_fa_digit)
  qed
qed

lemma no_AA_fa_locale: "CHR 0xAA \<notin> set (fa_locale x)"
  by (cases x) (simp_all add: fa_locale_def no_AA_toFa)

text \<open>The texts of the sample \<open>toLocaleString\<close> never hold the word for the currency.\<close>

lemma fa_locale_no_toman:
  "\<not> str_includes (fa_locale x @ str_milliard) str_toman
   \<and> \<not> str_includes (fa_locale x @ str_million) str_toman"
proof -
  have aa: "CHR 0xAA \<in> set str_toman" by (simp add: str_toman_def)
  have "\<not> str_includes (fa_locale x @ str_milliard) str_toman"
  proof
    assume "str_includes (fa_locale x @ str_milliard) str_toman"
    then have "set str_toman \<subseteq> set (fa_locale x @ str_milliard)" by (rule str_includes_set)
    with aa have "CHR 0xAA \<in> set (fa_locale x) \<union> set str_milliard" by auto
    then show False
      using no_AA_fa_locale [of x] by (simp add: str_milliard_def)
  qed
  moreover have "\<not> str_includes (fa_locale x @ str_million) str_toman"
  proof
    assume "str_includes (fa_locale x @ str_million) str_toman"
    then have "set str_toman \<subseteq> set (fa_locale x @ str_million)" by (rule str_includes_set)
    with aa have "CHR 0xAA \<in> set (fa_locale x) \<union> set str_million" by auto
    then show False
      using no_AA_fa_locale [of x] by (simp add: str_million_def)
  qed
  ultimately show ?thesis by simp
qed

lemma has_toman_hezar: "str_includes (t @ str_hezar @ [CHR 0x20] @ str_toman) str_toman"
proof -
  have "str_includes ((t @ str_hezar @ [CHR 0x20]) @ str_toman) str_toman"
    by (rule str_includes_suffix)
  then show ?thesis by simp
qed

text \<open>
  The two ways of putting the parts together give one text, when some part is there and
  the texts of the billions and of the millions do not hold the word for the currency.
\<close>

lemma renderings_agree:
  assumes "pb \<or> pm \<or> pt"
    and "\<not> str_includes (b @ str_milliard) str_toman"
    and "\<not> str_includes (m @ str_million) str_toman"
  shows
    "(let parts = (if pb then [b @ str_milliard] else [])
                @ (if pm then [m @ str_million] else [])
                @ (if pt then [t @ str_hezar] else [])
      in if length parts = 0 then str_dash else join str_va parts @ [CHR 0x20] @ str_toman)
   = (let parts = (if pb then [b @ str_milliard] else [])
                @ (if pm then [m @ str_million] else [])
                @ (if pt then [t @ str_hezar @ [CHR 0x20] @ str_toman] else [])
      in if length parts = 0 then str_zero_toman
         else if str_includes (last parts) str_toman then join str_va parts
         else join str_va parts @ [CHR 0x20] @ str_toman)"
  using assms has_toman_hezar [of t]
  by (cases pb; cases pm; cases pt) (simp_all add: Let_def)

lemma priceToText_parts:
  assumes "Number_isFinite v" and "dless (Fin 0) v"
  shows "priceToText L v =
     (let parts = (if dless (Fin 0) (billion_of v) then [L (billion_of v) @ str_milliard] else [])
                @ (if dless (Fin 0) (million_of v) then [L (million_of v) @ str_million] else [])
                @ (if dless (Fin 0) (thousand_of v) then [L (thousand_of v) @ str_hezar] else [])
      in if length parts = 0 then str_dash else join str_va parts @ [CHR 0x20] @ str_toman)"
proof -
  from assms obtain a where v: "v = Fin a" and a: "0 < a"
    by (cases v) simp_all
  then have "\<not> dle v (Fin 0)" by simp
  with assms(1) show ?thesis
    unfolding priceToText_def billion_of_def million_of_def thousand_of_def Let_def
    by simp
qed

lemma formatFromMillionInput_parts:
  assumes "Number_isFinite v" and "dless (Fin 0) v"
    and "\<not> dle (Fin 1000) (million_of v)" and "\<not> dle (Fin 1000) (thousand_of v)"
  shows "formatFromMillionInput L v =
     (let parts = (if dless (Fin 0) (billion_of v) then [L (billion_of v) @ str_milliard] else [])
                @ (if dless (Fin 0) (million_of v) then [L (million_of v) @ str_million] else [])
                @ (if dless (Fin 0) (thousand_of v)
                   then [L (thousand_of v) @ str_hezar @ [CHR 0x20] @ str_toman] else [])
      in if length parts = 0 then str_zero_toman
         else if str_includes (last parts) str_toman then join str_va parts
         else join str_va parts @ [CHR 0x20] @ str_toman)"
proof -
  from assms(1,2) obtain a where v: "v = Fin a" and a: "0 < a"
    by (cases v) simp_all
  then have abs: "Math_abs v = v" and s: "\<not> dless v (Fin 0)" by simp_all
  have m: "\<not> dle (Fin 1000) (Math_floor (dsub v (dmul (Math_floor (ddiv v 1000)) (Fin 1000))))"
    using assms(3) unfolding million_of_def billion_of_def .
  have t: "\<not> dle (Fin 1000) (Math_round (dmul (dsub (dsub v (dmul (Math_floor (ddiv v 1000)) (Fin 1000)))
             (Math_floor (dsub v (dmul (Math_floor (ddiv v 1000)) (Fin 1000))))) (Fin 1000)))"
    using assms(4) unfolding thousand_of_def million_of_def billion_of_def .
  show ?thesis
    unfolding formatFromMillionInput_def billion_of_def million_of_def thousand_of_def Let_def abs
    using assms(1) s m t by (simp only: if_False if_True not_False_eq_True simp_thms append_Nil)
qed

lemma no_part_no_carry:
  assumes "\<not> dless (Fin 0) x"
  shows "\<not> dle (Fin 1000) x"
  using assms by (cases x) simp_all

text \<open>
  Claim C10 says that \<open>priceToText\<close> and \<open>formatFromMillionInput\<close> give the same text for
  every positive finite number of millions. For the double nearest to a ten-thousandth of
  a million, where every part of the decomposition is zero, \<open>priceToText\<close> gives the dash
  and \<open>formatFromMillionInput\<close> gives the text for zero.
\<close>

theorem price_texts_differ_counterexample:
  "Number_isFinite (round_double (1 / 10000))
   \<and> dless (Fin 0) (round_double (1 / 10000))
   \<and> priceToText fa_locale (round_double (1 / 10000)) = str_dash
   \<and> priceToText_home fa_locale (round_double (1 / 10000)) = str_dash
   \<and> formatFromMillionInput fa_locale (round_double (1 / 10000)) = str_zero_toman
   \<and> str_dash \<noteq> str_zero_toman"
  by code_simp

text \<open>
  Where the thousands round up to 1000, \<open>formatFromMillionInput\<close> carries into the millions
  and \<open>priceToText\<close> has no such correction: for the double nearest to 0.9996 the one
  gives one million, the other a thousand thousands. The same holds for the double
  0.9994999999999999, which is \<open>9002695655113621 / 2^53\<close>: its product with 1000 is
  rounded to 999.5, and \<open>Math.round\<close> makes 1000 of it.
\<close>

lemma carry_example:
  "priceToText fa_locale (round_double (2499 / 2500))
     = toFa 1000 @ str_hezar @ [CHR 0x20] @ str_toman
   \<and> formatFromMillionInput fa_locale (round_double (2499 / 2500))
     = toFa 1 @ str_million @ [CHR 0x20] @ str_toman"
  by code_simp

lemma carry_example_below:
  "round_double (9994999999999999 / 10000000000000000) = Fin (9002695655113621 / 2 ^ 53)
   \<and> dmul (Fin (9002695655113621 / 2 ^ 53)) (Fin 1000) = Fin (1999 / 2)
   \<and> thousand_of (Fin (9002695655113621 / 2 ^ 53)) = Fin 1000
   \<and> priceToText fa_locale (Fin (9002695655113621 / 2 ^ 53))
     = toFa 1000 @ str_hezar @ [CHR 0x20] @ str_toman
   \<and> formatFromMillionInput fa_locale (Fin (9002695655113621 / 2 ^ 53))
     = toFa 1 @ str_million @ [CHR 0x20] @ str_toman"
  by code_simp

text \<open>The double nearest to 0.0045 has five thousands: its product with 1000 is rounded to 4.5.\<close>

lemma rounded_product_example:
  "dmul (round_double (45 / 10000)) (Fin 1000) = Fin (9 / 2)
   \<and> thousand_of (round_double (45 / 10000)) = Fin 5
   \<and> priceToText_home fa_locale (round_double (45 / 10000))
     = toFa 5 @ str_hezar @ [CHR 0x20] @ str_toman
   \<and> formatFromMillionInput fa_locale (round_double (45 / 10000))
     = toFa 5 @ str_hezar @ [CHR 0x20] @ str_toman"
  by code_simp

text \<open>
  C10, as the code has it. Take a finite number of millions above zero, and let the
  billions, the millions and the rounded thousands be the three numbers that both
  formatters compute from it in double arithmetic; let no text of \<open>toLocaleString\<close>
  followed by the word for billions or millions hold the word for the currency. If some
  part is above zero and neither the millions nor the thousands are 1000 or more, so that
  nothing is carried, then the two formatters and the home page's copy of \<open>priceToText\<close>
  give the same text. If no part is above zero, \<open>priceToText\<close> gives the dash and
  \<open>formatFromMillionInput\<close> the text for zero.
\<close>

theorem price_texts_agree:
  assumes "\<forall>x. \<not> str_includes (L x @ str_milliard) str_toman
               \<and> \<not> str_includes (L x @ str_million) str_toman"
    and "Number_isFinite v" and "dless (Fin 0) v"
  shows
    "((dless (Fin 0) (billion_of v) \<or> dless (Fin 0) (million_of v) \<or> dless (Fin 0) (thousand_of v))
      \<and> \<not> dle (Fin 1000) (million_of v) \<and> \<not> dle (Fin 1000) (thousand_of v) \<longrightarrow>
        priceToText L v = formatFromMillionInput L v
        \<and> priceToText_home L v = formatFromMillionInput L v)
     \<and> (\<not> (dless (Fin 0) (billion_of v) \<or> dless (Fin 0) (million_of v)
            \<or> dless (Fin 0) (thousand_of v)) \<longrightarrow>
          priceToText L v = str_dash
          \<and> priceToText_home L v = str_dash
          \<and> formatFromMillionInput L v = str_zero_toman)"
proof (intro conjI impI)
  assume h: "(dless (Fin 0) (billion_of v) \<or> dless (Fin 0) (million_of v)
               \<or> dless (Fin 0) (thousand_of v))
             \<and> \<not> dle (Fin 1000) (million_of v) \<and> \<not> dle (Fin 1000) (thousand_of v)"
  then have ne: "dless (Fin 0) (billion_of v) \<or> dless (Fin 0) (million_of v)
                 \<or> dless (Fin 0) (thousand_of v)"
    and m: "\<not> dle (Fin 1000) (million_of v)" and t: "\<not> dle (Fin 1000) (thousand_of v)"
    by simp_all
  from assms(1) have nb: "\<not> str_includes (L (billion_of v) @ str_milliard) str_toman"
    and nm: "\<not> str_includes (L (million_of v) @ str_million) str_toman"
    by simp_all
  show "priceToText L v = formatFromMillionInput L v"
    unfolding priceToText_parts [OF assms(2,3)] formatFromMillionInput_parts [OF assms(2,3) m t]
    using ne nb nm by (rule renderings_agree)
  then show "priceToText_home L v = formatFromMillionInput L v"
    by (simp only: priceToText_home_eq)
next
  assume h: "\<not> (dless (Fin 0) (billion_of v) \<or> dless (Fin 0) (million_of v)
               \<or> dless (Fin 0) (thousand_of v))"
  then have m: "\<not> dle (Fin 1000) (million_of v)" and t: "\<not> dle (Fin 1000) (thousand_of v)"
    by (simp_all add: no_part_no_carry)
  show "priceToText L v = str_dash"
    unfolding priceToText_parts [OF assms(2,3)] using h by (simp add: Let_def)
  then show "priceToText_home L v = str_dash"
    by (simp only: priceToText_home_eq)
  show "formatFromMillionInput L v = str_zero_toman"
    unfolding formatFromMillionInput_parts [OF assms(2,3) m t] using h by (simp add: Let_def)
qed

theorem price_texts_agree_witness:
  "priceToText fa_locale (Fin (10003 / 4)) = formatFromMillionInput fa_locale (Fin (10003 / 4))
   \<and> formatFromMillionInput fa_locale (Fin (10003 / 4))
      = toFa 2 @ str_milliard @ str_va @ toFa 500 @ str_million @ str_va @ toFa 750 @ str_hezar
        @ [CHR 0x20] @ str_toman
   \<and> priceToText fa_locale (Fin (241 / 2)) = formatFromMillionInput fa_locale (Fin (241 / 2))
   \<and> priceToText fa_locale (Fin 2000) = formatFromMillionInput fa_locale (Fin 2000)
   \<and> priceToText_home fa_locale (round_double (1 / 10)) = formatFromMillionInput fa_locale (round_double (1 / 10))
   \<and> formatFromMillionInput fa_locale (round_double (1 / 10000)) = str_zero_toman"
proof -
  have L: "\<forall>x. \<not> str_includes (fa_locale x @ str_milliard) str_toman
               \<and> \<not> str_includes (fa_locale x @ str_million) str_toman"
    using fa_locale_no_toman by blast
  have h1: "Number_isFinite (Fin (10003 / 4)) \<and> dless (Fin 0) (Fin (10003 / 4))
     \<and> (dless (Fin 0) (billion_of (Fin (10003 / 4))) \<or> dless (Fin 0) (million_of (Fin (10003 / 4)))
        \<or> dless (Fin 0) (thousand_of (Fin (10003 / 4))))
     \<and> \<not> dle (Fin 1000) (million_of (Fin (10003 / 4)))
     \<and> \<not> dle (Fin 1000) (thousand_of (Fin (10003 / 4)))"
    by code_simp
  have h2: "Number_isFinite (Fin (241 / 2)) \<and> dless (Fin 0) (Fin (241 / 2))
     \<and> (dless (Fin 0) (billion_of (Fin (241 / 2))) \<or> dless (Fin 0) (million_of (Fin (241 / 2)))
        \<or> dless (Fin 0) (thousand_of (Fin (241 / 2))))
     \<and> \<not> dle (Fin 1000) (million_of (Fin (241 / 2)))
     \<and> \<not> dle (Fin 1000) (thousand_of (Fin (241 / 2)))"
    by code_simp
  have h3: "Number_isFinite (Fin 2000) \<and> dless (Fin 0) (Fin 2000)
     \<and> (dless (Fin 0) (billion_of (Fin 2000)) \<or> dless (Fin 0) (million_of (Fin 2000))
        \<or> dless (Fin 0) (thousand_of (Fin 2000)))
     \<and> \<not> dle (Fin 1000) (million_of (Fin 2000))
     \<and> \<not> dle (Fin 1000) (thousand_of (Fin 2000))"
    by code_simp
  have h4: "Number_isFinite (round_double (1 / 10)) \<and> dless (Fin 0) (round_double (1 / 10))
     \<and> (dless (Fin 0) (billion_of (round_double (1 / 10))) \<or> dless (Fin 0) (million_of (round_double (1 / 10)))
        \<or> dless (Fin 0) (thousand_of (round_double (1 / 10))))
     \<and> \<not> dle (Fin 1000) (million_of (round_double (1 / 10)))
     \<and> \<not> dle (Fin 1000) (thousand_of (round_double (1 / 10)))"
    by code_simp
  have h5: "Number_isFinite (round_double (1 / 10000)) \<and> dless (Fin 0) (round_double (1 / 10000))
     \<and> \<not> (dless (Fin 0) (billion_of (round_double (1 / 10000)))
          \<or> dless (Fin 0) (million_of (round_double (1 / 10000)))
          \<or> dless (Fin 0) (thousand_of (round_double (1 / 10000))))"
    by code_simp
  have e: "formatFromMillionInput fa_locale (Fin (10003 / 4))
      = toFa 2 @ str_milliard @ str_va @ toFa 500 @ str_million @ str_va @ toFa 750 @ str_hezar
        @ [CHR 0x20] @ str_toman"
    by code_simp
  from price_texts_agree [of fa_locale "Fin (10003 / 4)"] L h1
  have "priceToText fa_locale (Fin (10003 / 4)) = formatFromMillionInput fa_locale (Fin (10003 / 4))"
    by blast
  moreover from price_texts_agree [of fa_locale "Fin (241 / 2)"] L h2
  have "priceToText fa_locale (Fin (241 / 2)) = formatFromMillionInput fa_locale (Fin (241 / 2))"
    by blast
  moreover from price_texts_agree [of fa_locale "Fin 2000"] L h3
  have "priceToText fa_locale (Fin 2000) = formatFromMillionInput fa_locale (Fin 2000)"
    by blast
  moreover from price_texts_agree [of fa_locale "round_double (1 / 10)"] L h4
  have "priceToText_home fa_locale (round_double (1 / 10))
        = formatFromMillionInput fa_locale (round_double (1 / 10))"
    by blast
  moreover from price_texts_agree [of fa_locale "round_double (1 / 10000)"] L h5
  have "formatFromMillionInput fa_locale (round_double (1 / 10000)) = str_zero_toman"
    by blast
  ultimately show ?thesis
    using e by blast
qed

end
